theory Spec2Isabelle
  imports Complex_Main "HOL-Library.Sublist"
begin

section \<open>Python strings\<close>

text \<open>
  A Python \<open>str\<close> is a sequence of Unicode code points.  A code point is a natural
  number, a string a list of them; \<open>u\<close> embeds an ASCII literal.  The bullet glyph of the
  source (U+2022) is the code point 8226.
\<close>

type_synonym ustring = "nat list"

definition u :: "string \<Rightarrow> ustring" where
  "u s = map of_char s"

definition nl :: nat where
  "nl = 10"

definition bullet :: nat where
  "bullet = 8226"

text \<open>\<open>str(n)\<close> for a non-negative integer: its decimal digits.\<close>

fun str_nat :: "nat \<Rightarrow> ustring" where
  "str_nat n = (if n < 10 then [48 + n] else str_nat (n div 10) @ [48 + n mod 10])"

declare str_nat.simps [simp del]

definition str_int :: "int \<Rightarrow> ustring" where
  "str_int i = (if i < 0 then 45 # str_nat (nat (- i)) else str_nat (nat i))"

text \<open>\<open>needle in haystack\<close> on strings is \<^const>\<open>sublist\<close>: a contiguous occurrence.\<close>

definition str_in :: "ustring \<Rightarrow> ustring \<Rightarrow> bool" where
  "str_in needle hay = sublist needle hay"

text \<open>
  The white space of \<open>str.strip\<close>, \<open>str.rstrip\<close> and of \<open>\s\<close> in a \<open>str\<close> pattern
  (CPython's \<open>Py_UNICODE_ISSPACE\<close>).
\<close>

definition isspace :: "nat \<Rightarrow> bool" where
  "isspace c = ((9 \<le> c \<and> c \<le> 13) \<or> (28 \<le> c \<and> c \<le> 32) \<or> c = 133 \<or> c = 160 \<or> c = 5760
     \<or> (8192 \<le> c \<and> c \<le> 8202) \<or> c = 8232 \<or> c = 8233 \<or> c = 8239 \<or> c = 8287 \<or> c = 12288)"

text \<open>
  The decimal digits of \<open>\d\<close> in a \<open>str\<close> pattern (Unicode category Nd, Unicode 14.0 as in
  CPython 3.11): runs of consecutive code points, given by first code point and length.
\<close>

definition decimal_runs :: "(nat \<times> nat) list" where
  "decimal_runs = [(48, 10), (1632, 10), (1776, 10), (1984, 10), (2406, 10), (2534, 10),
     (2662, 10), (2790, 10), (2918, 10), (3046, 10), (3174, 10), (3302, 10), (3430, 10),
     (3558, 10), (3664, 10), (3792, 10), (3872, 10), (4160, 10), (4240, 10), (6112, 10),
     (6160, 10), (6470, 10), (6608, 10), (6784, 10), (6800, 10), (6992, 10), (7088, 10),
     (7232, 10), (7248, 10), (42528, 10), (43216, 10), (43264, 10), (43472, 10), (43504, 10),
     (43600, 10), (44016, 10), (65296, 10), (66720, 10), (68912, 10), (69734, 10), (69872, 10),
     (69942, 10), (70096, 10), (70384, 10), (70736, 10), (70864, 10), (71248, 10), (71360, 10),
     (71472, 10), (71904, 10), (72016, 10), (72784, 10), (73040, 10), (73120, 10), (92768, 10),
     (92864, 10), (93008, 10), (120782, 50), (123200, 10), (123632, 10), (125264, 10),
     (130032, 10)]"

definition isdecimal :: "nat \<Rightarrow> bool" where
  "isdecimal c = list_ex (\<lambda>(a, n). a \<le> c \<and> c < a + n) decimal_runs"

definition lstrip :: "ustring \<Rightarrow> ustring" where
  "lstrip s = dropWhile isspace s"

definition rstrip :: "ustring \<Rightarrow> ustring" where
  "rstrip s = rev (dropWhile isspace (rev s))"

definition strip :: "ustring \<Rightarrow> ustring" where
  "strip s = lstrip (rstrip s)"

text \<open>\<open>s.split(sep)\<close> for a one-character separator: always at least one field.\<close>

fun split_on :: "nat \<Rightarrow> ustring \<Rightarrow> ustring list" where
  "split_on sep [] = [[]]"
| "split_on sep (c # cs) =
     (if c = sep then [] # split_on sep cs
      else (case split_on sep cs of [] \<Rightarrow> [[c]] | w # ws \<Rightarrow> (c # w) # ws))"

text \<open>\<open>sep.join(xs)\<close>.\<close>

fun join :: "ustring \<Rightarrow> ustring list \<Rightarrow> ustring" where
  "join sep [] = []"
| "join sep [x] = x"
| "join sep (x # y # ys) = x @ sep @ join sep (y # ys)"

text \<open>
  \<open>s.replace(old, new)\<close>: every non-overlapping occurrence, from the left.  With an empty
  \<open>old\<close> Python inserts \<open>new\<close> before every character and at the end.
\<close>

function str_replace :: "ustring \<Rightarrow> ustring \<Rightarrow> ustring \<Rightarrow> ustring" where
  "str_replace old new s =
     (if old = [] then new @ concat (map (\<lambda>c. c # new) s)
      else if s = [] then []
      else if prefix old s then new @ str_replace old new (drop (length old) s)
      else hd s # str_replace old new (tl s))"
  by pat_completeness auto
termination
  by (relation "measure (\<lambda>(old, new, s). length s)") auto

declare str_replace.simps [simp del]

text \<open>\<open>s.replace('\n', ' ')\<close> and the like: one character for another.\<close>

definition replace_char :: "nat \<Rightarrow> nat \<Rightarrow> ustring \<Rightarrow> ustring" where
  "replace_char a b s = map (\<lambda>c. if c = a then b else c) s"

text \<open>A string in single quotes, as Python's messages show names and types.\<close>

definition quoted :: "ustring \<Rightarrow> ustring" where
  "quoted s = [39] @ s @ [39]"

section \<open>The regular expressions of the markdown cleaner\<close>

text \<open>
  The patterns of \<open>clean_markdown_formatting\<close> have no alternation and no nested
  repetition: each is a sequence of character classes with a repetition count (greedy or
  lazy), line anchors of \<open>re.MULTILINE\<close>, and the brackets of group 1.  The matcher below is
  the backtracking search of Python's \<open>re\<close> on this fragment: a greedy repetition tries the
  longest run first, a lazy one the shortest, and the first success is the match.
\<close>

datatype ritem =
    Rep "nat \<Rightarrow> bool" nat "nat option" bool
  | Bol
  | Eol
  | GOpen
  | GClose

text \<open>
  \<open>rmatch items prev s n (gs, ge)\<close>: match \<open>items\<close> at the head of \<open>s\<close>, where \<open>prev\<close> is
  the character before \<open>s\<close> (\<open>None\<close> at the start of the text), \<open>n\<close> characters of the
  match are already consumed and group 1 spans the offsets \<open>gs..<ge\<close>.  The result is the
  length of the match and the span of group 1.
\<close>

fun dec_max :: "nat option \<Rightarrow> nat option" where
  "dec_max None = None"
| "dec_max (Some h) = Some (h - 1)"

fun rmatch :: "ritem list \<Rightarrow> nat option \<Rightarrow> ustring \<Rightarrow> nat \<Rightarrow> nat \<times> nat
    \<Rightarrow> (nat \<times> nat \<times> nat) option" where
  "rmatch [] prev s n (gs, ge) = Some (n, gs, ge)"
| "rmatch (Bol # r) prev s n g =
     (if prev = None \<or> prev = Some nl then rmatch r prev s n g else None)"
| "rmatch (Eol # r) prev [] n g = rmatch r prev [] n g"
| "rmatch (Eol # r) prev (c # cs) n g =
     (if c = nl then rmatch r prev (c # cs) n g else None)"
| "rmatch (GOpen # r) prev s n (gs, ge) = rmatch r prev s n (n, ge)"
| "rmatch (GClose # r) prev s n (gs, ge) = rmatch r prev s n (gs, n)"
| "rmatch (Rep cls lo hi greedy # r) prev [] n g =
     (if 0 < lo then None else rmatch r prev [] n g)"
| "rmatch (Rep cls lo hi greedy # r) prev (c # cs) n g =
     (if cls c \<and> hi \<noteq> Some 0 then
        (if 0 < lo then rmatch (Rep cls (lo - 1) (dec_max hi) greedy # r) (Some c) cs (Suc n) g
         else if greedy then
           (case rmatch (Rep cls (lo - 1) (dec_max hi) greedy # r) (Some c) cs (Suc n) g of
              Some m \<Rightarrow> Some m
            | None \<Rightarrow> rmatch r prev (c # cs) n g)
         else
           (case rmatch r prev (c # cs) n g of
              Some m \<Rightarrow> Some m
            | None \<Rightarrow> rmatch (Rep cls (lo - 1) (dec_max hi) greedy # r) (Some c) cs (Suc n) g))
      else if 0 < lo then None
      else rmatch r prev (c # cs) n g)"

text \<open>
  \<open>re.sub(pattern, repl, text)\<close> with a callable \<open>repl\<close> that may keep state (the list of
  saved code blocks): scan from the left, replace each match by what \<open>repl\<close> returns for
  the matched text and group 1, and resume after the match; after an empty match the next
  character is copied.  \<open>skip\<close> counts the characters of the current match still to pass.
\<close>

fun sub_scan :: "ritem list \<Rightarrow> (ustring \<Rightarrow> ustring \<Rightarrow> 's \<Rightarrow> ustring \<times> 's) \<Rightarrow> nat option
    \<Rightarrow> ustring \<Rightarrow> nat \<Rightarrow> 's \<Rightarrow> ustring \<times> 's" where
  "sub_scan re f prev [] skip st =
     (if 0 < skip then ([], st)
      else (case rmatch re prev [] 0 (0, 0) of
              None \<Rightarrow> ([], st)
            | Some (e, gs, ge) \<Rightarrow> f [] [] st))"
| "sub_scan re f prev (c # cs) skip st =
     (if 0 < skip then sub_scan re f (Some c) cs (skip - 1) st
      else (case rmatch re prev (c # cs) 0 (0, 0) of
              None \<Rightarrow> (case sub_scan re f (Some c) cs 0 st of (out, st') \<Rightarrow> (c # out, st'))
            | Some (e, gs, ge) \<Rightarrow>
                (case f (take e (c # cs)) (take (ge - gs) (drop gs (c # cs))) st of
                   (rep, st1) \<Rightarrow>
                     (case sub_scan re f (Some c) cs (e - 1) st1 of
                        (out, st2) \<Rightarrow>
                          (if e = 0 then (rep @ c # out, st2) else (rep @ out, st2))))))"

text \<open>A replacement template: literal text and references to group 1 (\<open>\1\<close>).\<close>

datatype tpiece = TLit ustring | TGroup

fun expand :: "tpiece list \<Rightarrow> ustring \<Rightarrow> ustring" where
  "expand [] g = []"
| "expand (TLit t # ps) g = t @ expand ps g"
| "expand (TGroup # ps) g = g @ expand ps g"

definition re_sub :: "ritem list \<Rightarrow> tpiece list \<Rightarrow> ustring \<Rightarrow> ustring" where
  "re_sub re template text =
     fst (sub_scan re (\<lambda>m g st. (expand template g, st)) None text 0 ())"

text \<open>Building blocks of the patterns.\<close>

definition one_char :: "nat \<Rightarrow> ritem" where
  "one_char x = Rep (\<lambda>c. c = x) 1 (Some 1) True"

definition lit :: "string \<Rightarrow> ritem list" where
  "lit s = map one_char (u s)"

definition any_char :: "nat \<Rightarrow> bool" where
  "any_char c = True"

definition not_char :: "nat \<Rightarrow> nat \<Rightarrow> bool" where
  "not_char x c = (c \<noteq> x)"

definition not_newline :: "nat \<Rightarrow> bool" where
  "not_newline c = (c \<noteq> nl)"

definition one_or_more :: "(nat \<Rightarrow> bool) \<Rightarrow> ritem" where
  "one_or_more cls = Rep cls 1 None True"

definition zero_or_more :: "(nat \<Rightarrow> bool) \<Rightarrow> ritem" where
  "zero_or_more cls = Rep cls 0 None True"

definition backtick :: nat where "backtick = 96"
definition asterisk :: nat where "asterisk = 42"
definition underscore :: nat where "underscore = 95"
definition hash :: nat where "hash = 35"

text \<open>\<^verbatim>\<open>```[\s\S]*?```\<close>\<close>
definition re_fenced :: "ritem list" where
  "re_fenced = lit ''```'' @ [Rep any_char 0 None False] @ lit ''```''"

text \<open>\<^verbatim>\<open>`[^`]+`\<close>\<close>
definition re_inline :: "ritem list" where
  "re_inline = [one_char backtick, one_or_more (not_char backtick), one_char backtick]"

text \<open>\<^verbatim>\<open>^#{1,6}\s+(.+)$\<close> with \<open>re.MULTILINE\<close>\<close>
definition re_header :: "ritem list" where
  "re_header = [Bol, Rep (\<lambda>c. c = hash) 1 (Some 6) True, one_or_more isspace,
                GOpen, one_or_more not_newline, GClose, Eol]"

text \<open>\<^verbatim>\<open>\*\*\*([^*]+)\*\*\*\<close>\<close>
definition re_bold_italic :: "ritem list" where
  "re_bold_italic = lit ''***'' @ [GOpen, one_or_more (not_char asterisk), GClose] @ lit ''***''"

text \<open>\<^verbatim>\<open>\*\*([^*]+)\*\*\<close>\<close>
definition re_bold :: "ritem list" where
  "re_bold = lit ''**'' @ [GOpen, one_or_more (not_char asterisk), GClose] @ lit ''**''"

text \<open>\<^verbatim>\<open>\*([^*]+)\*\<close>\<close>
definition re_italic :: "ritem list" where
  "re_italic = lit ''*'' @ [GOpen, one_or_more (not_char asterisk), GClose] @ lit ''*''"

text \<open>\<^verbatim>\<open>__([^_]+)__\<close>\<close>
definition re_bold_alt :: "ritem list" where
  "re_bold_alt = lit ''__'' @ [GOpen, one_or_more (not_char underscore), GClose] @ lit ''__''"

text \<open>\<^verbatim>\<open>_([^_]+)_\<close>\<close>
definition re_italic_alt :: "ritem list" where
  "re_italic_alt = lit ''_'' @ [GOpen, one_or_more (not_char underscore), GClose] @ lit ''_''"

text \<open>\<^verbatim>\<open>^[\s]*[-*]\s+\<close> with \<open>re.MULTILINE\<close>; the class also holds the bullet glyph.\<close>
definition re_bullet :: "ritem list" where
  "re_bullet = [Bol, zero_or_more isspace,
                Rep (\<lambda>c. c = 45 \<or> c = bullet \<or> c = asterisk) 1 (Some 1) True, one_or_more isspace]"

text \<open>\<^verbatim>\<open>^[\s]*(\d+)\.\s+\<close> with \<open>re.MULTILINE\<close>\<close>
definition re_numbered :: "ritem list" where
  "re_numbered = [Bol, zero_or_more isspace, GOpen, one_or_more isdecimal, GClose, one_char 46, one_or_more isspace]"

text \<open>\<^verbatim>\<open>\n{3,}\<close>\<close>
definition re_blank_lines :: "ritem list" where
  "re_blank_lines = [Rep (\<lambda>c. c = nl) 3 None True]"

section \<open>clean\_markdown\_formatting\<close>

text \<open>
  \<open>save_code_block\<close>: the callback of the two protecting substitutions.  It appends the
  matched text to \<open>code_blocks\<close> and returns the placeholder numbered by its index.
\<close>

definition placeholder :: "nat \<Rightarrow> ustring" where
  "placeholder i = u ''___CODE_BLOCK_'' @ str_nat i @ u ''___''"

definition save_code_block :: "ustring \<Rightarrow> ustring \<Rightarrow> ustring list \<Rightarrow> ustring \<times> ustring list" where
  "save_code_block m g code_blocks = (placeholder (length code_blocks), code_blocks @ [m])"

text \<open>The restoring loop: \<open>for i, block in enumerate(code_blocks): text = text.replace(...)\<close>.\<close>

definition restore_code_blocks :: "ustring list \<Rightarrow> ustring \<Rightarrow> ustring" where
  "restore_code_blocks code_blocks text =
     foldl (\<lambda>t (i, block). str_replace (placeholder i) block t) text
       (zip [0..<length code_blocks] code_blocks)"

text \<open>The loop that drops blank lines not following a line with content.\<close>

definition keep_line :: "ustring list \<Rightarrow> ustring \<Rightarrow> ustring list" where
  "keep_line cleaned_lines line =
     (if strip line \<noteq> [] \<or> (cleaned_lines \<noteq> [] \<and> strip (last cleaned_lines) \<noteq> [])
      then cleaned_lines @ [rstrip line] else cleaned_lines)"

definition blank :: "ustring \<Rightarrow> bool" where
  "blank line = (strip line = [])"

definition clean_markdown_formatting :: "ustring \<Rightarrow> ustring" where
  "clean_markdown_formatting text =
     (if text = [] then text
      else
        (case sub_scan re_fenced save_code_block None text 0 [] of (t1, blocks1) \<Rightarrow>
         (case sub_scan re_inline save_code_block None t1 0 blocks1 of (t2, code_blocks) \<Rightarrow>
           (let t3 = re_sub re_header [TLit [nl], TGroup, TLit [nl]] t2;
                t4 = re_sub re_bold_italic [TGroup] t3;
                t5 = re_sub re_bold [TGroup] t4;
                t6 = re_sub re_italic [TGroup] t5;
                t7 = re_sub re_bold_alt [TGroup] t6;
                t8 = re_sub re_italic_alt [TGroup] t7;
                t9 = re_sub re_bullet [TLit [bullet, 32]] t8;
                t10 = re_sub re_numbered [TGroup, TLit (u ''. '')] t9;
                t11 = re_sub re_blank_lines [TLit [nl, nl]] t10;
                t12 = restore_code_blocks code_blocks t11;
                cleaned_lines = foldl keep_line [] (split_on nl t12);
                no_leading = dropWhile blank cleaned_lines;
                no_trailing = rev (dropWhile blank (rev no_leading))
            in join [nl] no_trailing))))"

section \<open>JSON values and Python errors\<close>

text \<open>
  What \<open>resp.json()\<close> returns: \<open>None\<close>, a bool, an int, a float, a string, a list or
  a dict (its items, keys distinct).  A key that is absent and a value that is \<open>None\<close> are both
  \<open>JNull\<close> after \<open>d.get(k)\<close>.
\<close>

datatype json =
    JNull
  | JBool bool
  | JInt int
  | JFloat real
  | JStr ustring
  | JList "json list"
  | JDict "(ustring \<times> json) list"

text \<open>The name of the Python type of such a value, as exception messages show it.\<close>

fun type_name :: "json \<Rightarrow> ustring" where
  "type_name JNull = u ''NoneType''"
| "type_name (JBool b) = u ''bool''"
| "type_name (JInt i) = u ''int''"
| "type_name (JFloat r) = u ''float''"
| "type_name (JStr s) = u ''str''"
| "type_name (JList xs) = u ''list''"
| "type_name (JDict d) = u ''dict''"

text \<open>Python's truth value of such a value (\<open>if x\<close>, \<open>x or y\<close>, \<open>filter(None, xs)\<close>).\<close>

fun truthy :: "json \<Rightarrow> bool" where
  "truthy JNull = False"
| "truthy (JBool b) = b"
| "truthy (JInt i) = (i \<noteq> 0)"
| "truthy (JFloat r) = (r \<noteq> 0)"
| "truthy (JStr s) = (s \<noteq> [])"
| "truthy (JList xs) = (xs \<noteq> [])"
| "truthy (JDict d) = (d \<noteq> [])"

text \<open>
  The exceptions that occur, each with its message (\<open>str(e)\<close>, in the wording of
  CPython 3.11).
  \<open>RateLimitExhaustedError\<close> is a subclass of \<open>RuntimeError\<close>; so are the errors of the
  research and local providers.  \<open>GeminiError\<close> and the built-in errors are not.
\<close>

datatype error =
    RuntimeError ustring
  | RateLimitExhaustedError ustring
  | PerplexityError ustring
  | LocalLLMError ustring
  | GeminiError ustring
  | AttributeError ustring
  | TypeError ustring
  | KeyError ustring
  | IndexError ustring
  | UnicodeEncodeError ustring
  | OtherError ustring

fun error_text :: "error \<Rightarrow> ustring" where
  "error_text (RuntimeError m) = m"
| "error_text (RateLimitExhaustedError m) = m"
| "error_text (PerplexityError m) = m"
| "error_text (LocalLLMError m) = m"
| "error_text (GeminiError m) = m"
| "error_text (AttributeError m) = m"
| "error_text (TypeError m) = m"
| "error_text (KeyError m) = m"
| "error_text (IndexError m) = m"
| "error_text (UnicodeEncodeError m) = m"
| "error_text (OtherError m) = m"

text \<open>\<open>except RuntimeError\<close> catches these.\<close>

fun is_RuntimeError :: "error \<Rightarrow> bool" where
  "is_RuntimeError (RuntimeError m) = True"
| "is_RuntimeError (RateLimitExhaustedError m) = True"
| "is_RuntimeError (PerplexityError m) = True"
| "is_RuntimeError (LocalLLMError m) = True"
| "is_RuntimeError e = False"

text \<open>\<open>x.get(k, default)\<close>: only a dict has \<open>get\<close>.\<close>

fun py_get :: "json \<Rightarrow> ustring \<Rightarrow> json \<Rightarrow> error + json" where
  "py_get (JDict d) k dflt = Inr (case map_of d k of None \<Rightarrow> dflt | Some v \<Rightarrow> v)"
| "py_get x k dflt =
     Inl (AttributeError (quoted (type_name x) @ u '' object has no attribute '' @ quoted (u ''get'')))"

text \<open>
  \<open>x[0]\<close>: the first element of a list, the first character of a string; a dict of a
  JSON object has no key \<open>0\<close>; \<open>None\<close>, a bool or a number has no subscript.
\<close>

fun py_first :: "json \<Rightarrow> error + json" where
  "py_first (JList (x # xs)) = Inr x"
| "py_first (JList []) = Inl (IndexError (u ''list index out of range''))"
| "py_first (JStr (c # cs)) = Inr (JStr [c])"
| "py_first (JStr []) = Inl (IndexError (u ''string index out of range''))"
| "py_first (JDict d) = Inl (KeyError (u ''0''))"
| "py_first x = Inl (TypeError (quoted (type_name x) @ u '' object is not subscriptable''))"

section \<open>extract\_assistant\_text\<close>

text \<open>
  The text parts of a list content:
  \<open>[c.get("text") for c in content if isinstance(c, dict) and c.get("type") == "text"]\<close>.
\<close>

fun text_parts :: "json list \<Rightarrow> json list" where
  "text_parts [] = []"
| "text_parts (JDict d # cs) =
     (if map_of d (u ''type'') = Some (JStr (u ''text''))
      then (case map_of d (u ''text'') of None \<Rightarrow> JNull | Some v \<Rightarrow> v) # text_parts cs
      else text_parts cs)"
| "text_parts (c # cs) = text_parts cs"

text \<open>
  \<open>"\n".join(xs)\<close> on values: every one has to be a string; the message names the index
  and the type of the first that is not.  \<open>join_values_from i xs\<close> are the strings of \<open>xs\<close>,
  whose items have the indices from \<open>i\<close> on.
\<close>

fun join_values_from :: "nat \<Rightarrow> json list \<Rightarrow> error + ustring list" where
  "join_values_from i [] = Inr []"
| "join_values_from i (JStr s # xs) =
     (case join_values_from (Suc i) xs of Inl e \<Rightarrow> Inl e | Inr ss \<Rightarrow> Inr (s # ss))"
| "join_values_from i (x # xs) =
     Inl (TypeError (u ''sequence item '' @ str_nat i @ u '': expected str instance, ''
            @ type_name x @ u '' found''))"

definition join_values :: "json list \<Rightarrow> error + ustring list" where
  "join_values xs = join_values_from 0 xs"

text \<open>Sequencing of steps that may raise: the first exception ends the computation.\<close>

definition ebind :: "error + 'a \<Rightarrow> ('a \<Rightarrow> error + 'b) \<Rightarrow> error + 'b" where
  "ebind m f = (case m of Inl e \<Rightarrow> Inl e | Inr x \<Rightarrow> f x)"

text \<open>
  \<open>raw_text\<close> from the content of the first choice.  A content that is truthy and not a
  string makes \<open>re.sub\<close> in \<open>clean_markdown_formatting\<close> raise \<open>TypeError\<close>.
\<close>

definition raw_text_of :: "json \<Rightarrow> error + ustring" where
  "raw_text_of content =
     (case content of
        JList cs \<Rightarrow>
          ebind (join_values (filter truthy (text_parts cs)))
            (\<lambda>parts. Inr (if join [nl] parts \<noteq> [] then join [nl] parts
                          else u ''(no text parts)''))
      | _ \<Rightarrow>
          (case (if truthy content then content else JStr (u ''(empty content)'')) of
             JStr s \<Rightarrow> Inr s
           | other \<Rightarrow>
               Inl (TypeError (u ''expected string or bytes-like object, got ''
                      @ quoted (type_name other)))))"

text \<open>The body of the \<open>try\<close>: the text, or the exception that the handler catches.\<close>

definition extract_body :: "json \<Rightarrow> error + ustring" where
  "extract_body result =
     ebind (py_get result (u ''choices'') JNull) (\<lambda>got.
       if \<not> truthy (if truthy got then got else JList [])
       then Inr (u ''(no choices in response)'')
       else
         ebind (py_first got) (\<lambda>choice.
         ebind (py_get choice (u ''message'') (JDict [])) (\<lambda>msg.
         ebind (py_get msg (u ''content'') JNull) (\<lambda>content.
         ebind (raw_text_of content) (\<lambda>raw_text.
         Inr (clean_markdown_formatting raw_text))))))"

definition extract_assistant_text :: "json \<Rightarrow> ustring" where
  "extract_assistant_text result =
     (case extract_body result of
        Inr text \<Rightarrow> text
      | Inl e \<Rightarrow> u ''Failed to parse response: '' @ error_text e)"

section \<open>classify\_task\<close>

text \<open>
  \<open>str.lower\<close> follows the Unicode case mappings of the Python runtime.  It is a parameter
  of the classifier; \<open>ascii_lower\<close> is what it does on ASCII text.
\<close>

definition ascii_lower :: "ustring \<Rightarrow> ustring" where
  "ascii_lower s = map (\<lambda>c. if 65 \<le> c \<and> c \<le> 90 then c + 32 else c) s"

definition research_terms :: "ustring list" where
  "research_terms = map u [''research'', ''literature review'', ''academic'', ''paper'',
     ''survey'', ''citation'', ''references'', ''doi'', ''scholarly'', ''journal'',
     ''systematic review'']"

definition code_terms :: "ustring list" where
  "code_terms = map u [''code'', ''function'', ''bug'', ''python'', ''javascript'',
     ''algorithm'']"

text \<open>An optional string is truthy when it is there and not empty.\<close>

fun truthy_opt :: "ustring option \<Rightarrow> bool" where
  "truthy_opt None = False"
| "truthy_opt (Some s) = (s \<noteq> [])"

definition classify_task :: "(ustring \<Rightarrow> ustring) \<Rightarrow> ustring \<Rightarrow> ustring option \<Rightarrow> ustring" where
  "classify_task lower prompt image_url =
     (let p = lower prompt in
      if list_ex (\<lambda>term. str_in term p) research_terms then u ''research''
      else if list_ex (\<lambda>word. str_in word p) code_terms then u ''code''
      else if truthy_opt image_url then u ''image_reason''
      else u ''general'')"

section \<open>The process state and the outside world\<close>

text \<open>The counters of \<open>_metrics\<close>.\<close>

record metrics_rec =
  attempts :: int
  successful_calls :: int
  errors_total :: int
  bytes_received :: int
  last_latency_ms :: int

text \<open>The normalized response: the dict with the keys model, task\_type, assistant\_text, raw.\<close>

record response =
  model :: json
  task_type :: ustring
  assistant_text :: ustring
  raw :: json

text \<open>The chat payload \<open>{"model": ..., "messages": ..., "temperature": ...}\<close>.\<close>

datatype msg_content = TextContent ustring | TextAndImage ustring ustring

datatype message = Message ustring msg_content

record payload =
  p_model :: ustring
  p_messages :: "message list"
  p_temperature :: real

text \<open>
  The payload of the direct Gemini call: the content parts and the temperature (the rest
  of \<open>generationConfig\<close> is constant).  \<open>InlineData mime bytes\<close> stands for the part with
  that mime type and the base64 text of the bytes.
\<close>

datatype part = TextPart ustring | InlineData ustring "nat list"

record gemini_payload =
  g_parts :: "part list"
  g_temperature :: real

text \<open>
  The HTTP requests of the router: the chat completion call (bearer key, optional referer
  and title headers, payload), the Gemini call for a candidate model, the Gemini model
  listing and the download of the image.
\<close>

datatype request =
    OpenRouterPost ustring "ustring option" "ustring option" payload
  | GeminiPost ustring ustring gemini_payload
  | GeminiList ustring
  | ImageGet ustring

text \<open>
  What a request comes back with: a \<open>requests.RequestException\<close> with its message, or a
  response with its status, reason phrase, final URL, text, parsed body, content and
  content type.  \<open>json_result\<close> is \<open>None\<close> when \<open>resp.json()\<close> raises \<open>ValueError\<close>.
\<close>

record http_response =
  status_code :: int
  reason :: ustring
  resp_url :: ustring
  resp_text :: ustring
  json_result :: "json option"
  resp_content :: "nat list"
  content_type :: "ustring option"

datatype reply = NetworkError ustring | Reply http_response

text \<open>
  The mutable state of the process and what the calls observe of the world: the counters,
  the response cache (key to response and insertion time), the clock of \<open>time.time()\<close> in
  seconds, the requests issued so far, and the cached model listing that
  \<open>generate_gemini_response\<close> keeps as a function attribute.
\<close>

record world =
  metrics :: metrics_rec
  response_cache :: "ustring \<rightharpoonup> (response \<times> real)"
  clock :: real
  http_log :: "request list"
  model_list_cache :: "(real \<times> json list) option"

text \<open>
  What does not change during a dispatch: the environment variables, the network (the
  duration and outcome of a request, given the requests issued before it), the research
  and the local provider (\<open>generate_research_response\<close>, \<open>generate_local_response\<close>, taken
  as they are: any function of the state), and three functions of the Python runtime:
  \<open>str.lower\<close>, the hex digest of MD5 of a byte string, and \<open>elapsed_ms start stop\<close>, the
  value of \<open>int((stop - start) * 1000)\<close> in the float arithmetic of the runtime.
\<close>

record env =
  environ :: "(ustring \<times> ustring) list"
  http :: "request list \<Rightarrow> request \<Rightarrow> real \<times> reply"
  generate_research_response ::
    "ustring \<Rightarrow> ustring option \<Rightarrow> real \<Rightarrow> world \<Rightarrow> (error + response) \<times> world"
  generate_local_response ::
    "ustring \<Rightarrow> ustring option \<Rightarrow> real \<Rightarrow> world \<Rightarrow> (error + response) \<times> world"
  lower :: "ustring \<Rightarrow> ustring"
  md5_hexdigest :: "nat list \<Rightarrow> ustring"
  elapsed_ms :: "real \<Rightarrow> real \<Rightarrow> int"

definition getenv :: "env \<Rightarrow> ustring \<Rightarrow> ustring option" where
  "getenv e name = map_of (environ e) name"

definition getenv_default :: "env \<Rightarrow> ustring \<Rightarrow> ustring \<Rightarrow> ustring" where
  "getenv_default e name dflt = (case getenv e name of None \<Rightarrow> dflt | Some v \<Rightarrow> v)"

text \<open>Issuing a request: it is logged, and the clock advances by its duration.\<close>

definition send :: "env \<Rightarrow> request \<Rightarrow> world \<Rightarrow> real \<times> reply \<times> world" where
  "send e req w =
     (case http e (http_log w) req of
        (dt, rep) \<Rightarrow> (dt, rep, w\<lparr>http_log := http_log w @ [req], clock := clock w + dt\<rparr>))"

definition sleep :: "real \<Rightarrow> world \<Rightarrow> world" where
  "sleep secs w = w\<lparr>clock := clock w + secs\<rparr>"

text \<open>
  Truncation towards zero, as \<open>int(x)\<close> does.  On exact reals it stands in for \<open>elapsed_ms\<close>
  in the concrete scenarios.
\<close>

definition py_int :: "real \<Rightarrow> int" where
  "py_int x = (if 0 \<le> x then \<lfloor>x\<rfloor> else \<lceil>x\<rceil>)"

section \<open>The model registry and the credentials\<close>

definition DEFAULT_FALLBACK_MODEL :: ustring where
  "DEFAULT_FALLBACK_MODEL = u ''qwen/qwen-2.5-72b-instruct:free''"

definition MODEL_PREFERENCES :: "env \<Rightarrow> (ustring \<times> ustring list) list" where
  "MODEL_PREFERENCES e =
     [(u ''code'',
        [getenv_default e (u ''INTELLIHUB_MODEL_CODE'') (u ''google/gemini-1.5-flash-latest''),
         u ''qwen/qwen-2.5-coder-32b-instruct:free'',
         u ''qwen/qwen-2.5-72b-instruct:free'']),
      (u ''image_reason'',
        [getenv_default e (u ''INTELLIHUB_MODEL_IMAGE'') (u ''google/gemini-1.5-pro-latest''),
         u ''x-ai/grok-4-fast:free'',
         u ''qwen/qwen-2.5-72b-instruct:free'']),
      (u ''general'',
        [getenv_default e (u ''INTELLIHUB_MODEL_GENERAL'') (u ''google/gemini-1.5-flash-latest''),
         u ''qwen/qwen-2.5-72b-instruct:free'',
         u ''qwen/qwen-2.5-coder-32b-instruct:free'']),
      (u ''research'',
        [getenv_default e (u ''INTELLIHUB_MODEL_RESEARCH'') (u ''google/gemini-1.5-pro-latest''),
         u ''qwen/qwen-2.5-72b-instruct:free'',
         u ''qwen/qwen-2.5-coder-32b-instruct:free''])]"

text \<open>
  The loop over \<open>OPENROUTER_API_KEY_1\<close>, \<open>OPENROUTER_API_KEY_2\<close>, ... stops at the first
  index that is unset or empty.  It ends because the environment is finite and the
  names are pairwise different.
\<close>

function indexed_keys :: "(ustring \<times> ustring) list \<Rightarrow> nat \<Rightarrow> ustring list" where
  "indexed_keys vars idx =
     (case map_of vars (u ''OPENROUTER_API_KEY_'' @ str_nat idx) of
        None \<Rightarrow> []
      | Some val \<Rightarrow> if val = [] then [] else strip val # indexed_keys vars (Suc idx))"
  by pat_completeness auto
termination
proof (relation "measure (\<lambda>(vars, idx).
    card {j. idx \<le> j \<and> u ''OPENROUTER_API_KEY_'' @ str_nat j \<in> dom (map_of vars)})")
  show "wf (measure (\<lambda>(vars, idx).
    card {j. idx \<le> j \<and> u ''OPENROUTER_API_KEY_'' @ str_nat j \<in> dom (map_of vars)}))"
    by simp
next
  fix vars :: "(ustring \<times> ustring) list" and idx :: nat and val :: ustring
  assume set: "map_of vars (u ''OPENROUTER_API_KEY_'' @ str_nat idx) = Some val"
  let ?name = "\<lambda>j. u ''OPENROUTER_API_KEY_'' @ str_nat j"
  let ?S = "\<lambda>i. {j. i \<le> j \<and> ?name j \<in> dom (map_of vars)}"
  have value_of: "foldl (\<lambda>a d. 10 * a + (d - 48)) 0 (str_nat n) = n" for n
  proof (induction n rule: str_nat.induct)
    case (1 n)
    show ?case
    proof (cases "n < 10")
      case True
      then show ?thesis by (subst str_nat.simps) simp
    next
      case False
      with 1 show ?thesis by (subst str_nat.simps) simp
    qed
  qed
  have "inj str_nat"
    by (rule inj_on_inverseI [where g = "foldl (\<lambda>a d. 10 * a + (d - 48)) 0"]) (rule value_of)
  then have "inj ?name"
    by (auto simp: inj_on_def)
  then have "finite (?name -` dom (map_of vars))"
    by (intro finite_vimageI finite_dom_map_of)
  then have fin: "finite (?S idx)"
    by (rule rev_finite_subset) auto
  have sub: "?S (Suc idx) \<subseteq> ?S idx"
    by auto
  have "idx \<in> ?S idx"
    using set by auto
  moreover have "idx \<notin> ?S (Suc idx)"
    by simp
  ultimately have "?S (Suc idx) \<noteq> ?S idx"
    by metis
  with sub have "?S (Suc idx) \<subset> ?S idx"
    by (rule psubsetI)
  with fin have "card (?S (Suc idx)) < card (?S idx)"
    by (rule psubset_card_mono)
  then show "((vars, Suc idx), (vars, idx)) \<in> measure (\<lambda>(vars, idx).
    card {j. idx \<le> j \<and> u ''OPENROUTER_API_KEY_'' @ str_nat j \<in> dom (map_of vars)})"
    by simp
qed

declare indexed_keys.simps [simp del]

text \<open>The deduplication that keeps the first occurrence of each non-empty key.\<close>

fun uniq :: "ustring list \<Rightarrow> ustring list \<Rightarrow> ustring list" where
  "uniq seen [] = []"
| "uniq seen (k # ks) =
     (if k \<noteq> [] \<and> k \<notin> set seen then k # uniq (k # seen) ks else uniq seen ks)"

definition collect_api_keys :: "env \<Rightarrow> ustring list" where
  "collect_api_keys e =
     (let from_csv =
            (case getenv e (u ''OPENROUTER_API_KEYS'') of
               None \<Rightarrow> []
             | Some csv \<Rightarrow> filter (\<lambda>k. k \<noteq> []) (map strip (split_on 44 csv)));
          indexed = indexed_keys (environ e) 1;
          legacy = concat (map (\<lambda>name. case getenv e name of
                                           None \<Rightarrow> []
                                         | Some lv \<Rightarrow> if lv = [] then [] else [strip lv])
                               [u ''deepseek_api_key'', u ''grok_api_key''])
      in uniq [] (from_csv @ indexed @ legacy))"

section \<open>request\_with\_rotation\<close>

text \<open>
  The state of the two nested loops: \<open>last_error\<close>, \<open>attempts_summary\<close> and the process
  state.  A loop either leaves the function (\<open>Inl\<close>: the value returned or the exception
  raised, with the state) or ends with its state (\<open>Inr\<close>).  Output of \<open>print\<close> is not part
  of the state.
\<close>

type_synonym rot_state = "ustring option \<times> ustring list \<times> world"

definition str_opt :: "ustring option \<Rightarrow> ustring" where
  "str_opt x = (case x of None \<Rightarrow> u ''None'' | Some s \<Rightarrow> s)"

definition network_error_line :: "nat \<Rightarrow> nat \<Rightarrow> ustring \<Rightarrow> ustring" where
  "network_error_line key_index attempt msg =
     u ''Network error (key '' @ str_nat (key_index + 1) @ u '', attempt '' @ str_nat attempt
       @ u ''): '' @ msg"

definition attempt_line :: "nat \<Rightarrow> nat \<Rightarrow> int \<Rightarrow> ustring \<Rightarrow> ustring" where
  "attempt_line key_index attempt status snippet =
     u ''key '' @ str_nat (key_index + 1) @ u '' attempt '' @ str_nat attempt @ u '' -> ''
       @ str_int status @ u '' : '' @ snippet"

text \<open>An optional header is sent when its variable is set and not empty.\<close>

definition header_of :: "env \<Rightarrow> ustring \<Rightarrow> ustring option" where
  "header_of e name = (if truthy_opt (getenv e name) then getenv e name else None)"

text \<open>
  The inner loop \<open>for attempt in range(1, max_retries_per_key + 1)\<close> for one key, over the
  attempts that remain.
\<close>

fun key_attempts :: "env \<Rightarrow> payload \<Rightarrow> ustring \<Rightarrow> nat \<Rightarrow> nat \<Rightarrow> nat list \<Rightarrow> rot_state
    \<Rightarrow> ((error + json) \<times> world) + rot_state" where
  "key_attempts e pl key key_index backoff_seconds [] st = Inr st"
| "key_attempts e pl key key_index backoff_seconds (attempt # rest) (last_error, summary, w) =
     (let w1 = w\<lparr>metrics := (metrics w)\<lparr>attempts := attempts (metrics w) + 1\<rparr>\<rparr> in
      case send e (OpenRouterPost key (header_of e (u ''INTELLIHUB_REFERER''))
                     (header_of e (u ''INTELLIHUB_TITLE'')) pl) w1 of
        (dt, NetworkError msg, w2) \<Rightarrow>
          key_attempts e pl key key_index backoff_seconds rest
            (Some (network_error_line key_index attempt msg),
             summary @ [network_error_line key_index attempt msg],
             sleep (real backoff_seconds) w2)
      | (dt, Reply resp, w2) \<Rightarrow>
          (let w3 = w2\<lparr>metrics := (metrics w2)
                      \<lparr>last_latency_ms := elapsed_ms e (clock w1) (clock w2)\<rparr>\<rparr>;
               status = status_code resp;
               snippet = replace_char nl 32 (take 180 (resp_text resp));
               summary' = summary @ [attempt_line key_index attempt status snippet]
           in if status = 200 then
                (case json_result resp of
                   Some data \<Rightarrow>
                     Inl (Inr data,
                          w3\<lparr>metrics := (metrics w3)
                             \<lparr>successful_calls := successful_calls (metrics w3) + 1,
                              bytes_received := bytes_received (metrics w3)
                                + int (length (resp_content resp))\<rparr>\<rparr>)
                 | None \<Rightarrow> Inl (Inl (RuntimeError (u ''Response not valid JSON (200)'')), w3))
              else if status = 401 \<or> status = 403 then
                Inr (Some (u ''Auth error '' @ str_int status @ u '' with key ''
                            @ str_nat (key_index + 1)), summary', w3)
              else if status = 429 then
                key_attempts e pl key key_index backoff_seconds rest
                  (last_error, summary', sleep (real (backoff_seconds * 2 ^ (attempt - 1))) w3)
              else
                Inr (Some (u ''HTTP '' @ str_int status @ u '' with key ''
                            @ str_nat (key_index + 1)), summary', w3)))"

text \<open>The outer loop \<open>for key_index, key in enumerate(api_keys)\<close>.\<close>

fun keys_loop :: "env \<Rightarrow> payload \<Rightarrow> nat \<Rightarrow> nat \<Rightarrow> (nat \<times> ustring) list \<Rightarrow> rot_state
    \<Rightarrow> ((error + json) \<times> world) + rot_state" where
  "keys_loop e pl max_retries_per_key backoff_seconds [] st = Inr st"
| "keys_loop e pl max_retries_per_key backoff_seconds ((key_index, key) # rest) st =
     (case key_attempts e pl key key_index backoff_seconds [1..<max_retries_per_key + 1] st of
        Inl done \<Rightarrow> Inl done
      | Inr st' \<Rightarrow> keys_loop e pl max_retries_per_key backoff_seconds rest st')"

definition enumerate_from0 :: "'a list \<Rightarrow> (nat \<times> 'a) list" where
  "enumerate_from0 xs = zip [0..<length xs] xs"

text \<open>The test behind the specialised error: every line of the summary mentions 429.\<close>

definition all_429 :: "ustring list \<Rightarrow> bool" where
  "all_429 summary = list_all (\<lambda>a. str_in (u '' 429 '') a \<or> str_in (u ''429'') a) summary"

definition request_with_rotation :: "env \<Rightarrow> payload \<Rightarrow> ustring list \<Rightarrow> nat \<Rightarrow> nat \<Rightarrow> world
    \<Rightarrow> (error + json) \<times> world" where
  "request_with_rotation e pl api_keys max_retries_per_key backoff_seconds w =
     (if api_keys = [] then
        (Inl (RuntimeError
           (u ''No API keys found. Set OPENROUTER_API_KEYS or OPENROUTER_API_KEY_1.'')), w)
      else
        (case keys_loop e pl max_retries_per_key backoff_seconds (enumerate_from0 api_keys)
                (None, [], w) of
           Inl done \<Rightarrow> done
         | Inr (last_error, summary, w') \<Rightarrow>
             (let diagnostic = join (u '' | '') summary;
                  w'' = w'\<lparr>metrics := (metrics w')
                           \<lparr>errors_total := errors_total (metrics w') + 1\<rparr>\<rparr>
              in if diagnostic \<noteq> [] \<and> all_429 summary then
                   (Inl (RateLimitExhaustedError
                      (u ''Rate limited across all keys. Attempts: '' @ diagnostic)), w'')
                 else
                   (Inl (RuntimeError
                      (u ''All keys failed. Last error: '' @ str_opt last_error
                         @ u ''. Attempts: '' @ diagnostic)), w''))))"

section \<open>try\_models\_with\_fallback\<close>

text \<open>
  The loop over the models, with \<open>last_error\<close> and \<open>rate_limit_only\<close> (the list
  \<open>all_attempts\<close> is written and never read).  \<open>n_models\<close> is \<open>len(models)\<close>.
\<close>

fun models_loop :: "env \<Rightarrow> nat \<Rightarrow> payload \<Rightarrow> ustring list \<Rightarrow> ustring list
    \<Rightarrow> ustring option \<times> bool \<times> world \<Rightarrow> (error + json) \<times> world" where
  "models_loop e n_models pl api_keys [] (last_error, rate_limit_only, w) =
     (if rate_limit_only \<and> truthy_opt last_error \<and> str_in (u ''429'') (str_opt last_error)
      then (Inl (RateLimitExhaustedError
                   (u ''All models/keys hit external 429 rate limits.'')), w)
      else (Inl (RuntimeError
                   (u ''All fallback models failed. Last error: '' @ str_opt last_error)), w))"
| "models_loop e n_models pl api_keys (m # rest) (last_error, rate_limit_only, w) =
     (case request_with_rotation e (pl\<lparr>p_model := m\<rparr>) api_keys 1 5 w of
        (Inr data, w') \<Rightarrow> (Inr data, w')
      | (Inl err, w') \<Rightarrow>
          (if \<not> is_RuntimeError err then (Inl err, w')
           else if str_in (u ''429'') (error_text err) \<and> 1 < n_models
           then models_loop e n_models pl api_keys rest
                  (Some (error_text err),
                   rate_limit_only \<and> str_in (u ''429'') (error_text err), w')
           else (Inl err, w')))"

definition try_models_with_fallback :: "env \<Rightarrow> ustring list \<Rightarrow> payload \<Rightarrow> ustring list \<Rightarrow> world
    \<Rightarrow> (error + json) \<times> world" where
  "try_models_with_fallback e models pl api_keys w =
     models_loop e (length models) pl api_keys models (None, True, w)"

definition build_messages :: "ustring \<Rightarrow> ustring option \<Rightarrow> message list" where
  "build_messages prompt image_url =
     (case image_url of
        None \<Rightarrow> [Message (u ''user'') (TextContent prompt)]
      | Some url \<Rightarrow>
          if url \<noteq> [] then [Message (u ''user'') (TextAndImage prompt url)]
          else [Message (u ''user'') (TextContent prompt)])"

section \<open>The response cache\<close>

definition CACHE_TTL :: real where
  "CACHE_TTL = 300"

text \<open>
  \<open>s.encode()\<close>: the UTF-8 bytes of a string.  A surrogate code point (U+D800 to U+DFFF)
  has no encoding: \<open>UnicodeEncodeError\<close> is raised, and its message names the first run of
  surrogates.  (A Python string has no code point above U+10FFFF.)
\<close>

definition is_surrogate :: "nat \<Rightarrow> bool" where
  "is_surrogate c = (55296 \<le> c \<and> c \<le> 57343)"

definition hex_digit :: "nat \<Rightarrow> nat" where
  "hex_digit d = (if d < 10 then 48 + d else 87 + d)"

definition hex4 :: "nat \<Rightarrow> ustring" where
  "hex4 c = map hex_digit [c div 4096 mod 16, c div 256 mod 16, c div 16 mod 16, c mod 16]"

definition utf8_char :: "nat \<Rightarrow> nat list" where
  "utf8_char c =
     (if c < 128 then [c]
      else if c < 2048 then [192 + c div 64, 128 + c mod 64]
      else if c < 65536 then [224 + c div 4096, 128 + c div 64 mod 64, 128 + c mod 64]
      else [240 + c div 262144, 128 + c div 4096 mod 64, 128 + c div 64 mod 64,
            128 + c mod 64])"

definition encode_utf8 :: "ustring \<Rightarrow> error + nat list" where
  "encode_utf8 s =
     (let start = length (takeWhile (\<lambda>c. \<not> is_surrogate c) s);
          run = length (takeWhile is_surrogate (drop start s))
      in if start = length s then Inr (concat (map utf8_char s))
         else if run = 1 then
           Inl (UnicodeEncodeError
                  (quoted (u ''utf-8'') @ u '' codec can'' @ [39] @ u ''t encode character ''
                   @ quoted ([92] @ u ''u'' @ hex4 (s ! start)) @ u '' in position ''
                   @ str_nat start @ u '': surrogates not allowed''))
         else
           Inl (UnicodeEncodeError
                  (quoted (u ''utf-8'') @ u '' codec can'' @ [39] @ u ''t encode characters in position ''
                   @ str_nat start @ u ''-'' @ str_nat (start + run - 1)
                   @ u '': surrogates not allowed'')))"

text \<open>
  The key is the digest of the encoded \<open>cache_input\<close>; the encoding may raise.
\<close>

definition generate_cache_key :: "env \<Rightarrow> ustring \<Rightarrow> ustring option \<Rightarrow> ustring
    \<Rightarrow> error + ustring" where
  "generate_cache_key e prompt image_url task =
     ebind (encode_utf8
              (prompt @ u ''|'' @ (case image_url of None \<Rightarrow> [] | Some url \<Rightarrow> url)
                 @ u ''|'' @ task))
       (\<lambda>bytes. Inr (md5_hexdigest e bytes))"

definition get_cached_response :: "ustring \<Rightarrow> world \<Rightarrow> response option \<times> world" where
  "get_cached_response cache_key w =
     (case response_cache w cache_key of
        None \<Rightarrow> (None, w)
      | Some (resp, timestamp) \<Rightarrow>
          if clock w - timestamp < CACHE_TTL then (Some resp, w)
          else (None, w\<lparr>response_cache := (response_cache w)(cache_key := None)\<rparr>))"

definition cache_response :: "ustring \<Rightarrow> response \<Rightarrow> world \<Rightarrow> world" where
  "cache_response cache_key resp w =
     w\<lparr>response_cache := (response_cache w)(cache_key \<mapsto> (resp, clock w))\<rparr>"

section \<open>The direct Gemini client\<close>

text \<open>The iteration \<open>for x in v\<close> over a JSON value: the elements it yields, or \<open>TypeError\<close>.\<close>

fun py_iter :: "json \<Rightarrow> error + json list" where
  "py_iter (JList xs) = Inr xs"
| "py_iter (JStr s) = Inr (map (\<lambda>c. JStr [c]) s)"
| "py_iter (JDict d) = Inr (map (\<lambda>kv. JStr (fst kv)) d)"
| "py_iter x = Inl (TypeError (quoted (type_name x) @ u '' object is not iterable''))"

text \<open>\<open>[p["text"] for p in parts if isinstance(p, dict) and p.get("text")]\<close>\<close>

fun gemini_text_parts :: "json list \<Rightarrow> json list" where
  "gemini_text_parts [] = []"
| "gemini_text_parts (JDict d # ps) =
     (case map_of d (u ''text'') of
        None \<Rightarrow> gemini_text_parts ps
      | Some v \<Rightarrow> if truthy v then v # gemini_text_parts ps else gemini_text_parts ps)"
| "gemini_text_parts (p # ps) = gemini_text_parts ps"

definition extract_gemini_body :: "json \<Rightarrow> error + ustring" where
  "extract_gemini_body data =
     ebind (py_get data (u ''candidates'') (JList [])) (\<lambda>candidates.
       if \<not> truthy candidates then Inr (u ''(no candidates in Gemini response)'')
       else
         ebind (py_first candidates) (\<lambda>candidate.
         ebind (py_get candidate (u ''content'') (JDict [])) (\<lambda>content.
         ebind (py_get content (u ''parts'') (JList [])) (\<lambda>parts.
           if \<not> truthy parts then Inr (u ''(no parts in Gemini response)'')
           else
             ebind (py_iter parts) (\<lambda>ps.
               if gemini_text_parts ps = [] then Inr (u ''(no text parts in Gemini response)'')
               else ebind (join_values (gemini_text_parts ps))
                      (\<lambda>texts. Inr (join [nl] texts)))))))"

definition extract_gemini_text :: "json \<Rightarrow> ustring" where
  "extract_gemini_text data =
     (case extract_gemini_body data of
        Inr text \<Rightarrow> text
      | Inl e \<Rightarrow> u ''Failed to parse Gemini response: '' @ error_text e)"

definition alternates_map :: "(ustring \<times> ustring list) list" where
  "alternates_map =
     [(u ''gemini-1.5-flash'',
        map u [''gemini-2.5-flash'', ''gemini-flash-latest'', ''gemini-2.0-flash'',
               ''gemini-2.0-flash-001'']),
      (u ''gemini-1.5-pro'',
        map u [''gemini-2.5-pro'', ''gemini-pro-latest'', ''gemini-2.0-pro-exp'']),
      (u ''gemini-2.5-flash'',
        map u [''gemini-flash-latest'', ''gemini-2.5-flash-lite'', ''gemini-2.0-flash'']),
      (u ''gemini-2.5-pro'',
        map u [''gemini-pro-latest'', ''gemini-2.5-flash''])]"

definition gemini_api_key :: "env \<Rightarrow> bool \<Rightarrow> error + ustring" where
  "gemini_api_key e use_new_key =
     (if use_new_key \<and> truthy_opt (getenv e (u ''GEMINI_NEW_API_KEY''))
      then Inr (str_opt (getenv e (u ''GEMINI_NEW_API_KEY'')))
      else if truthy_opt (getenv e (u ''GEMINI_API_KEY''))
      then Inr (str_opt (getenv e (u ''GEMINI_API_KEY'')))
      else if use_new_key
      then Inl (GeminiError
                  (u ''Neither GEMINI_NEW_API_KEY nor GEMINI_API_KEY found in environment''))
      else Inl (GeminiError (u ''GEMINI_API_KEY not found in environment'')))"

text \<open>The override of the two default model names by the environment.\<close>

definition gemini_model :: "env \<Rightarrow> ustring \<Rightarrow> ustring" where
  "gemini_model e mdl =
     (if mdl = u ''gemini-1.5-flash'' \<or> mdl = u ''gemini-2.5-flash'' then
        (let env_model = (if truthy_opt (getenv e (u ''GEMINI_MODEL''))
                          then getenv e (u ''GEMINI_MODEL'')
                          else getenv e (u ''INTELLIHUB_GEMINI_MODEL''))
         in if truthy_opt env_model then strip (str_opt env_model) else mdl)
      else mdl)"

text \<open>
  The content parts: the prompt, and the image when one is given.  A failed download
  (a network error, or a status that \<open>raise_for_status\<close> rejects) is a \<open>GeminiError\<close>.
\<close>

definition content_parts :: "env \<Rightarrow> ustring \<Rightarrow> ustring option \<Rightarrow> world
    \<Rightarrow> (error + part list) \<times> world" where
  "content_parts e prompt image_url w =
     (if truthy_opt image_url then
        (case send e (ImageGet (str_opt image_url)) w of
           (dt, NetworkError msg, w') \<Rightarrow>
             (Inl (GeminiError (u ''Failed to fetch image for Gemini: '' @ msg)), w')
         | (dt, Reply resp, w') \<Rightarrow>
             if 400 \<le> status_code resp \<and> status_code resp < 600 then
               (Inl (GeminiError (u ''Failed to fetch image for Gemini: ''
                        @ str_int (status_code resp)
                        @ (if status_code resp < 500 then u '' Client Error: ''
                           else u '' Server Error: '')
                        @ reason resp @ u '' for url: '' @ resp_url resp)), w')
             else
               (Inr [TextPart prompt,
                     InlineData (case content_type resp of
                                   None \<Rightarrow> u ''image/jpeg'' | Some t \<Rightarrow> t)
                                (resp_content resp)], w'))
      else (Inr [TextPart prompt], w))"

text \<open>
  The names of the listing:
  \<open>[m.get("name", "") for m in listing.get("models", []) if m.get("name")]\<close>.
\<close>

fun names_of :: "json list \<Rightarrow> error + json list" where
  "names_of [] = Inr []"
| "names_of (m # ms) =
     ebind (py_get m (u ''name'') JNull) (\<lambda>name.
     ebind (names_of ms) (\<lambda>names.
       Inr (if truthy name then name # names else names)))"

definition listing_names :: "json \<Rightarrow> error + json list" where
  "listing_names listing =
     ebind (py_get listing (u ''models'') (JList [])) (\<lambda>models.
     ebind (py_iter models) names_of)"

text \<open>
  The dynamic discovery after a 404: the listing is fetched when no cached listing is
  at hand or the cached one is older than 300 seconds, and stored with its time; any
  exception on the way leaves the model list empty.  \<open>cache\<close> is the local variable that
  was read from the function attribute before the loop.
\<close>

definition discover :: "env \<Rightarrow> ustring \<Rightarrow> (real \<times> json list) option \<Rightarrow> world
    \<Rightarrow> json list \<times> (real \<times> json list) option \<times> world" where
  "discover e api_key cache w =
     (let now = clock w in
      case (case cache of None \<Rightarrow> None
                        | Some (t, names) \<Rightarrow> if now - t > 300 then None else Some names) of
        Some names \<Rightarrow> (names, cache, w)
      | None \<Rightarrow>
          (case send e (GeminiList api_key) w of
             (dt, NetworkError msg, w') \<Rightarrow> ([], cache, w')
           | (dt, Reply resp, w') \<Rightarrow>
               if status_code resp = 200 then
                 (case json_result resp of
                    None \<Rightarrow> ([], cache, w')
                  | Some listing \<Rightarrow>
                      (case listing_names listing of
                         Inl err \<Rightarrow> ([], cache, w')
                       | Inr names \<Rightarrow>
                           (names, Some (now, names),
                            w'\<lparr>model_list_cache := Some (now, names)\<rparr>)))
               else ([], cache, w')))"

text \<open>\<open>preferred in m\<close> for a listed name \<open>m\<close>.\<close>

fun token_in :: "ustring \<Rightarrow> json \<Rightarrow> error + bool" where
  "token_in preferred (JStr s) = Inr (str_in preferred s)"
| "token_in preferred (JList xs) = Inr (JStr preferred \<in> set xs)"
| "token_in preferred (JDict d) = Inr (preferred \<in> set (map fst d))"
| "token_in preferred x =
     Inl (TypeError (u ''argument of type '' @ quoted (type_name x) @ u '' is not iterable''))"

text \<open>\<open>next((m for m in model_list if preferred in m), None)\<close>\<close>

fun first_with_token :: "ustring \<Rightarrow> json list \<Rightarrow> error + json option" where
  "first_with_token preferred [] = Inr None"
| "first_with_token preferred (m # ms) =
     ebind (token_in preferred m) (\<lambda>found.
       if found then Inr (Some m) else first_with_token preferred ms)"

text \<open>
  The candidate list after the pick: the first listed name with the preferred token, cut
  to what follows its last slash, is appended unless it is a candidate already.
\<close>

definition append_pick :: "env \<Rightarrow> json list \<Rightarrow> ustring list \<Rightarrow> error + ustring list" where
  "append_pick e model_list candidate_models =
     ebind (first_with_token (getenv_default e (u ''GEMINI_PREFERRED_FAMILY'') (u ''gemini-2.5''))
              model_list)
       (\<lambda>dynamic_pick_full.
          case dynamic_pick_full of
            None \<Rightarrow> Inr candidate_models
          | Some (JStr full) \<Rightarrow>
              if full = [] then Inr candidate_models
              else if last (split_on 47 full) \<in> set candidate_models then Inr candidate_models
              else Inr (candidate_models @ [last (split_on 47 full)])
          | Some other \<Rightarrow>
              if truthy other
              then Inl (AttributeError (quoted (type_name other)
                          @ u '' object has no attribute '' @ quoted (u ''split'')))
              else Inr candidate_models)"

text \<open>
  The state of the dispatch loop: \<open>candidate_models\<close>, \<open>last_error\<close>, the local \<open>cache\<close>
  and the process state.  The loop runs over \<open>list(candidate_models)\<close>, the copy taken
  before the first iteration: \<open>snapshot\<close> is what remains of that copy.
\<close>

type_synonym gemini_state = "ustring list \<times> ustring option \<times> (real \<times> json list) option \<times> world"

fun gemini_loop :: "env \<Rightarrow> ustring \<Rightarrow> gemini_payload \<Rightarrow> ustring \<Rightarrow> ustring list \<Rightarrow> gemini_state
    \<Rightarrow> ((error + response) \<times> world) + gemini_state" where
  "gemini_loop e api_key pl task [] st = Inr st"
| "gemini_loop e api_key pl task (candidate # snapshot) (candidate_models, last_error, cache, w) =
     (case send e (GeminiPost candidate api_key pl) w of
        (dt, NetworkError msg, w1) \<Rightarrow>
          gemini_loop e api_key pl task snapshot
            (candidate_models, Some (u ''Network error: '' @ msg), cache, w1)
      | (dt, Reply resp, w1) \<Rightarrow>
          if status_code resp = 200 then
            (case json_result resp of
               None \<Rightarrow> Inl (Inl (GeminiError (u ''Gemini returned non-JSON 200 response'')), w1)
             | Some data \<Rightarrow>
                 Inl (Inr \<lparr>model = JStr (u ''gemini/'' @ candidate), task_type = task,
                           assistant_text = clean_markdown_formatting (extract_gemini_text data),
                           raw = data\<rparr>, w1))
          else
            (let snippet = replace_char nl 32 (take 200 (resp_text resp));
                 err = (if snippet \<noteq> []
                        then u ''HTTP '' @ str_int (status_code resp) @ u '' '' @ snippet
                        else u ''HTTP '' @ str_int (status_code resp))
             in if status_code resp = 404 then
                  (case discover e api_key cache w1 of
                     (model_list, cache', w2) \<Rightarrow>
                       (case append_pick e model_list candidate_models of
                          Inl exn \<Rightarrow> Inl (Inl exn, w2)
                        | Inr candidate_models' \<Rightarrow>
                            gemini_loop e api_key pl task snapshot
                              (candidate_models', Some err, cache', w2)))
                else Inr (candidate_models, Some err, cache, w1)))"

text \<open>The \<open>repr\<close> of a list of strings, as interpolated into the final message.\<close>

definition repr_list :: "ustring list \<Rightarrow> ustring" where
  "repr_list xs = u ''['' @ join (u '', '') (map (\<lambda>x. [39] @ x @ [39]) xs) @ u '']''"

definition generate_gemini_response :: "env \<Rightarrow> ustring \<Rightarrow> ustring option \<Rightarrow> real \<Rightarrow> ustring
    \<Rightarrow> bool \<Rightarrow> world \<Rightarrow> (error + response) \<times> world" where
  "generate_gemini_response e prompt image_url temperature mdl use_new_key w =
     (case gemini_api_key e use_new_key of
        Inl err \<Rightarrow> (Inl err, w)
      | Inr api_key \<Rightarrow>
          (case content_parts e prompt image_url w of
             (Inl err, w1) \<Rightarrow> (Inl err, w1)
           | (Inr parts, w1) \<Rightarrow>
               (let m = gemini_model e mdl;
                    candidate_models =
                      m # (case map_of alternates_map m of
                             None \<Rightarrow> []
                           | Some alts \<Rightarrow> filter (\<lambda>a. a \<noteq> m) alts)
                in case gemini_loop e api_key
                          \<lparr>g_parts = parts, g_temperature = temperature\<rparr>
                          (classify_task (lower e) prompt image_url)
                          candidate_models
                          (candidate_models, None, model_list_cache w1, w1) of
                     Inl done \<Rightarrow> done
                   | Inr (tried, last_error, cache, w2) \<Rightarrow>
                       (Inl (GeminiError
                          (u ''Gemini API failed after trying models='' @ repr_list tried
                             @ u '' last_error='' @ str_opt last_error
                             @ u ''. Set GEMINI_MODEL or GEMINI_PREFERRED_FAMILY to override.'')),
                        w2))))"

section \<open>generate\_response\<close>

text \<open>The fixed guidance message of the rate-limit path.\<close>

definition guidance :: ustring where
  "guidance =
     u ''The service hit external rate limits on all available providers.'' @ [nl, nl]
     @ u ''What you can do now:'' @ [nl]
     @ [bullet] @ u '' Add credits to OpenRouter (unlocks higher daily quota).'' @ [nl]
     @ [bullet] @ u '' Add additional API keys (OPENROUTER_API_KEYS) for rotation.'' @ [nl]
     @ [bullet] @ u '' Retry in a few minutes (limits reset periodically).'' @ [nl]
     @ [bullet] @ u '' Upgrade to paid / non-free models and include them in MODEL_PREFERENCES.''
     @ [nl]
     @ [bullet] @ u '' Implement per-user throttling to reduce burst traffic.''"

definition rate_limited_response :: "ustring list \<Rightarrow> ustring \<Rightarrow> response" where
  "rate_limited_response models task =
     \<lparr>model = JStr (hd models), task_type = task, assistant_text = guidance,
      raw = JDict [(u ''error'', JStr (u ''rate_limited''))]\<rparr>"

text \<open>\<open>MODEL_PREFERENCES.get(task_type) or [DEFAULT_FALLBACK_MODEL]\<close>\<close>

definition models_for :: "env \<Rightarrow> ustring \<Rightarrow> ustring list" where
  "models_for e task =
     (case map_of (MODEL_PREFERENCES e) task of
        None \<Rightarrow> [DEFAULT_FALLBACK_MODEL]
      | Some ms \<Rightarrow> if ms = [] then [DEFAULT_FALLBACK_MODEL] else ms)"

text \<open>
  The special dispatch of research prompts: the result of the research provider, cached,
  or \<open>None\<close> when the path is not taken or the provider fails.
\<close>

definition research_path :: "env \<Rightarrow> ustring \<Rightarrow> ustring option \<Rightarrow> real \<Rightarrow> ustring \<Rightarrow> ustring
    \<Rightarrow> world \<Rightarrow> response option \<times> world" where
  "research_path e prompt image_url temperature task cache_key w =
     (if task = u ''research'' \<and> truthy_opt (getenv e (u ''PERPLEXITY_API_KEY'')) then
        (case generate_research_response e prompt image_url (min temperature 0.5) w of
           (Inr research_result, w') \<Rightarrow>
             (Some research_result, cache_response cache_key research_result w')
         | (Inl err, w') \<Rightarrow> (None, w'))
      else (None, w))"

text \<open>The end of the function: the text is extracted, the result is cached and returned.\<close>

definition finish :: "json \<Rightarrow> ustring \<Rightarrow> json \<Rightarrow> ustring \<Rightarrow> world \<Rightarrow> (error + response) \<times> world" where
  "finish model_used task raw_json cache_key w =
     (let result = \<lparr>model = model_used, task_type = task,
                     assistant_text = extract_assistant_text raw_json, raw = raw_json\<rparr>
      in (Inr result, cache_response cache_key result w))"

text \<open>
  The handler of a \<open>RuntimeError\<close> \<open>err\<close> of the coordinator that is not the rate-limit
  error: the default model, then the local backend, then the direct Gemini call.
\<close>

definition last_resort :: "env \<Rightarrow> ustring \<Rightarrow> ustring option \<Rightarrow> real \<Rightarrow> ustring \<Rightarrow> ustring
    \<Rightarrow> payload \<Rightarrow> ustring list \<Rightarrow> error \<Rightarrow> world \<Rightarrow> (error + response) \<times> world" where
  "last_resort e prompt image_url temperature task cache_key pl api_keys err w =
     (case request_with_rotation e (pl\<lparr>p_model := DEFAULT_FALLBACK_MODEL\<rparr>) api_keys 1 8 w of
        (Inr raw_json, w1) \<Rightarrow> finish (JStr DEFAULT_FALLBACK_MODEL) task raw_json cache_key w1
      | (Inl final_openrouter_error, w1) \<Rightarrow>
          if getenv e (u ''INTELLIHUB_DISABLE_GEMINI_FALLBACK'') = Some (u ''1'')
          then (Inl final_openrouter_error, w1)
          else
            (case generate_local_response e prompt image_url temperature w1 of
               (Inr local_result, w2) \<Rightarrow>
                 (Inr local_result, cache_response cache_key local_result w2)
             | (Inl local_err, w2) \<Rightarrow>
                 if truthy_opt (getenv e (u ''GEMINI_API_KEY'')) then
                   (case generate_gemini_response e prompt image_url temperature
                           (u ''gemini-2.5-flash'') False w2 of
                      (Inr gemini_result, w3) \<Rightarrow>
                        (Inr gemini_result, cache_response cache_key gemini_result w3)
                    | (Inl gemini_err, w3) \<Rightarrow>
                        (Inl (RuntimeError
                           (u ''OpenRouter failed ('' @ error_text err
                              @ u ''); Gemini fallback failed ('' @ error_text gemini_err
                              @ u '')'')), w3))
                 else (Inl final_openrouter_error, w2)))"

text \<open>The path after the cache lookup and the research dispatch.\<close>

definition general_path :: "env \<Rightarrow> ustring \<Rightarrow> ustring option \<Rightarrow> real \<Rightarrow> ustring \<Rightarrow> ustring
    \<Rightarrow> world \<Rightarrow> (error + response) \<times> world" where
  "general_path e prompt image_url temperature task cache_key w =
     (let models = models_for e task;
          api_keys = collect_api_keys e;
          pl = \<lparr>p_model = hd models, p_messages = build_messages prompt image_url,
                p_temperature = temperature\<rparr>
      in if api_keys = [] \<and> truthy_opt (getenv e (u ''GEMINI_API_KEY'')) then
           (case generate_gemini_response e prompt image_url temperature
                   (u ''gemini-2.5-flash'') False w of
              (Inr direct, w') \<Rightarrow> (Inr direct, cache_response cache_key direct w')
            | (Inl gemini_direct_error, w') \<Rightarrow>
                (Inl (RuntimeError (u ''No OpenRouter keys and Gemini direct failed: ''
                        @ error_text gemini_direct_error)), w'))
         else
           (case try_models_with_fallback e models pl api_keys w of
              (Inr raw_json, w') \<Rightarrow>
                (case py_get raw_json (u ''model'') (JStr (hd models)) of
                   Inl exn \<Rightarrow> (Inl exn, w')
                 | Inr model_used \<Rightarrow> finish model_used task raw_json cache_key w')
            | (Inl (RateLimitExhaustedError msg), w') \<Rightarrow>
                (Inr (rate_limited_response models task), w')
            | (Inl err, w') \<Rightarrow>
                if is_RuntimeError err
                then last_resort e prompt image_url temperature task cache_key pl api_keys err w'
                else (Inl err, w')))"

definition generate_response :: "env \<Rightarrow> ustring \<Rightarrow> ustring option \<Rightarrow> real \<Rightarrow> world
    \<Rightarrow> (error + response) \<times> world" where
  "generate_response e prompt image_url temperature w =
     (let task = classify_task (lower e) prompt image_url
      in case generate_cache_key e prompt image_url task of
           Inl exn \<Rightarrow> (Inl exn, w)
         | Inr cache_key \<Rightarrow>
             (case get_cached_response cache_key w of
                (Some cached, w1) \<Rightarrow> (Inr cached, w1)
              | (None, w1) \<Rightarrow>
                  (case research_path e prompt image_url temperature task cache_key w1 of
                     (Some research_result, w2) \<Rightarrow> (Inr research_result, w2)
                   | (None, w2) \<Rightarrow>
                       general_path e prompt image_url temperature task cache_key w2)))"

section \<open>Concrete scenarios\<close>

text \<open>
  A fresh process, and four environments: one whose upstream answers every request with
  a 200 and a chat completion, one whose upstream answers every request with a 429, one
  whose upstream answers every request with a 503, and one whose Gemini endpoint answers
  every candidate with a 404 and lists one more model of the preferred family.  The research and the local provider are not configured, the
  digest is the identity, and the elapsed time is computed on exact reals.
\<close>

definition world0 :: world where
  "world0 = \<lparr>metrics = \<lparr>attempts = 0, successful_calls = 0, errors_total = 0,
                          bytes_received = 0, last_latency_ms = 0\<rparr>,
             response_cache = Map.empty, clock = 0, http_log = [], model_list_cache = None\<rparr>"

definition no_provider :: "ustring \<Rightarrow> ustring option \<Rightarrow> real \<Rightarrow> world
    \<Rightarrow> (error + response) \<times> world" where
  "no_provider prompt image_url temperature w = (Inl (OtherError (u ''not configured'')), w)"

definition plain_reply :: "int \<Rightarrow> ustring \<Rightarrow> json option \<Rightarrow> reply" where
  "plain_reply status body js =
     Reply \<lparr>status_code = status, reason = [], resp_url = [], resp_text = body,
            json_result = js, resp_content = [], content_type = None\<rparr>"

definition hello_json :: json where
  "hello_json = JDict [(u ''model'', JStr (u ''m1'')),
     (u ''choices'',
        JList [JDict [(u ''message'', JDict [(u ''content'', JStr (u ''Hello''))])]])]"

definition env_ok :: env where
  "env_ok = \<lparr>environ = [(u ''OPENROUTER_API_KEYS'', u ''k1'')],
              http = (\<lambda>history req. (1, plain_reply 200 (u ''ok'') (Some hello_json))),
              generate_research_response = no_provider,
              generate_local_response = no_provider,
              lower = ascii_lower, md5_hexdigest = (\<lambda>bytes. bytes),
               elapsed_ms = (\<lambda>start stop. py_int ((stop - start) * 1000))\<rparr>"

definition env_429 :: env where
  "env_429 = \<lparr>environ = [(u ''OPENROUTER_API_KEYS'', u ''k1'')],
               http = (\<lambda>history req. (1, plain_reply 429 (u ''slow down'') None)),
               generate_research_response = no_provider,
               generate_local_response = no_provider,
               lower = ascii_lower, md5_hexdigest = (\<lambda>bytes. bytes),
               elapsed_ms = (\<lambda>start stop. py_int ((stop - start) * 1000))\<rparr>"

definition env_503 :: env where
  "env_503 = \<lparr>environ = [(u ''OPENROUTER_API_KEYS'', u ''k1'')],
               http = (\<lambda>history req. (1, plain_reply 503 (u ''loading'') None)),
               generate_research_response = no_provider,
               generate_local_response = no_provider,
               lower = ascii_lower, md5_hexdigest = (\<lambda>bytes. bytes),
               elapsed_ms = (\<lambda>start stop. py_int ((stop - start) * 1000))\<rparr>"

text \<open>The state in which the rate-limited dispatch of the prompt \<open>hi\<close> leaves a fresh process.\<close>

definition world_429 :: world where
  "world_429 =
     world0\<lparr>metrics := \<lparr>attempts = 3, successful_calls = 0, errors_total = 3,
                          bytes_received = 0, last_latency_ms = 1000\<rparr>,
            clock := 18,
            http_log := map (\<lambda>m. OpenRouterPost (u ''k1'') None None
                          \<lparr>p_model = m,
                           p_messages = [Message (u ''user'') (TextContent (u ''hi''))],
                           p_temperature = 0.7\<rparr>)
                        [u ''google/gemini-1.5-flash-latest'',
                         u ''qwen/qwen-2.5-72b-instruct:free'',
                         u ''qwen/qwen-2.5-coder-32b-instruct:free'']\<rparr>"

definition listing_reply :: reply where
  "listing_reply = plain_reply 200 (u ''listing'')
     (Some (JDict [(u ''models'',
        JList [JDict [(u ''name'', JStr (u ''models/gemini-2.5-flash-preview''))]])]))"

fun http_404 :: "request list \<Rightarrow> request \<Rightarrow> real \<times> reply" where
  "http_404 history (GeminiPost candidate api_key pl) =
     (0, plain_reply 404 (u ''not found'') None)"
| "http_404 history (GeminiList api_key) = (0, listing_reply)"
| "http_404 history req = (0, NetworkError (u ''unreachable''))"

definition env_404 :: env where
  "env_404 = \<lparr>environ = [(u ''GEMINI_API_KEY'', u ''g1'')], http = http_404,
               generate_research_response = no_provider,
               generate_local_response = no_provider,
               lower = ascii_lower, md5_hexdigest = (\<lambda>bytes. bytes),
               elapsed_ms = (\<lambda>start stop. py_int ((stop - start) * 1000))\<rparr>"

text \<open>The candidate models that were sent to the Gemini endpoint, in order.\<close>

fun posted_candidates :: "request list \<Rightarrow> ustring list" where
  "posted_candidates [] = []"
| "posted_candidates (GeminiPost candidate api_key pl # reqs) =
     candidate # posted_candidates reqs"
| "posted_candidates (req # reqs) = posted_candidates reqs"

text \<open>
  A reply that fails with a rate-limit flavour: a network error whose message mentions
  429, or a response other than 200 whose status is 429 or whose snippet mentions 429.
  Its line in \<open>attempts_summary\<close> then contains 429.
\<close>

definition rate_limited_reply :: "reply \<Rightarrow> bool" where
  "rate_limited_reply rep =
     (case rep of
        NetworkError msg \<Rightarrow> str_in (u ''429'') msg
      | Reply resp \<Rightarrow>
          status_code resp \<noteq> 200
          \<and> (status_code resp = 429
               \<or> str_in (u ''429'') (replace_char nl 32 (take 180 (resp_text resp)))))"

section \<open>Evaluation on concrete inputs\<close>

text \<open>
  The recursive equations of \<open>str_nat\<close> and \<open>str_replace\<close> are not simplification rules;
  these instances unfold them on literals.
\<close>

lemma str_nat_0: "str_nat 0 = [48]"
  by (subst str_nat.simps) simp

lemma str_nat_1: "str_nat (Suc 0) = [49]"
  by (subst str_nat.simps) simp

lemma str_nat_numeral:
  "str_nat (numeral k) =
     (if (numeral k :: nat) < 10 then [48 + numeral k]
      else str_nat (numeral k div 10) @ [48 + numeral k mod 10])"
  by (subst str_nat.simps) simp

lemma str_replace_Nil: "old \<noteq> [] \<Longrightarrow> str_replace old new [] = []"
  by (subst str_replace.simps) simp

lemma str_replace_Cons:
  "old \<noteq> [] \<Longrightarrow> str_replace old new (c # cs) =
     (if prefix old (c # cs) then new @ str_replace old new (drop (length old) (c # cs))
      else c # str_replace old new cs)"
  by (subst str_replace.simps) simp

lemmas eval_simps = str_nat_0 str_nat_1 str_nat_numeral str_replace_Nil str_replace_Cons

lemmas regex_defs = re_fenced_def re_inline_def re_header_def re_bold_italic_def re_bold_def
  re_italic_def re_bold_alt_def re_italic_alt_def re_bullet_def re_numbered_def
  re_blank_lines_def lit_def one_char_def one_or_more_def zero_or_more_def any_char_def
  not_char_def not_newline_def backtick_def asterisk_def underscore_def hash_def nl_def
  bullet_def u_def re_sub_def

lemmas clean_defs = clean_markdown_formatting_def save_code_block_def placeholder_def
  restore_code_blocks_def keep_line_def blank_def strip_def lstrip_def rstrip_def isspace_def
  isdecimal_def decimal_runs_def

lemmas router_defs = generate_response_def general_path_def last_resort_def finish_def
  research_path_def get_cached_response_def cache_response_def generate_cache_key_def
  models_for_def MODEL_PREFERENCES_def DEFAULT_FALLBACK_MODEL_def collect_api_keys_def
  build_messages_def try_models_with_fallback_def request_with_rotation_def enumerate_from0_def
  all_429_def attempt_line_def network_error_line_def header_of_def send_def sleep_def
  py_int_def getenv_def getenv_default_def str_opt_def classify_task_def research_terms_def
  code_terms_def str_in_def ascii_lower_def replace_char_def str_int_def
  rate_limited_response_def CACHE_TTL_def strip_def lstrip_def rstrip_def isspace_def
  encode_utf8_def utf8_char_def is_surrogate_def ebind_def
  indexed_keys.simps sublist_code

lemmas gemini_defs = generate_gemini_response_def gemini_api_key_def content_parts_def
  gemini_model_def alternates_map_def discover_def append_pick_def listing_names_def
  repr_list_def send_def getenv_def getenv_default_def str_opt_def ebind_def quoted_def
  classify_task_def research_terms_def code_terms_def str_in_def ascii_lower_def
  replace_char_def str_int_def sublist_code

lemmas fixture_defs = env_429_def env_ok_def env_503_def env_404_def world0_def plain_reply_def
  hello_json_def no_provider_def listing_reply_def

section \<open>The classifier\<close>

text \<open>
  C4.  Whatever the prompt and the image reference: when the lower-cased prompt contains
  a research term, \<open>classify_task\<close> returns \<open>research\<close>, also when it contains a code term
  as well; when it contains neither a research term nor a code term and no image
  reference is given, \<open>classify_task\<close> returns \<open>general\<close>.  The result is a function of the
  prompt and the image reference alone (and of the case mapping of the runtime).
\<close>

theorem classify_task_order:
  "((\<exists>t \<in> set research_terms. str_in t (to_lower prompt))
      \<longrightarrow> classify_task to_lower prompt image_url = u ''research'')
   \<and> ((\<exists>t \<in> set research_terms. str_in t (to_lower prompt))
        \<and> (\<exists>c \<in> set code_terms. str_in c (to_lower prompt))
      \<longrightarrow> classify_task to_lower prompt image_url = u ''research'')
   \<and> (\<not> (\<exists>t \<in> set research_terms. str_in t (to_lower prompt))
        \<and> \<not> (\<exists>c \<in> set code_terms. str_in c (to_lower prompt))
        \<and> \<not> truthy_opt image_url
      \<longrightarrow> classify_task to_lower prompt image_url = u ''general'')"
  by (simp add: classify_task_def list_ex_iff)

lemma research_prompt_has_research_term:
  "\<exists>t \<in> set research_terms. str_in t (ascii_lower (u ''Research PAPER about Python code''))"
  by code_simp

lemma research_prompt_has_code_term:
  "\<exists>c \<in> set code_terms. str_in c (ascii_lower (u ''Research PAPER about Python code''))"
  by code_simp

lemma greeting_has_no_research_term:
  "\<not> (\<exists>t \<in> set research_terms. str_in t (ascii_lower (u ''Hello there'')))"
  by code_simp

lemma greeting_has_no_code_term:
  "\<not> (\<exists>c \<in> set code_terms. str_in c (ascii_lower (u ''Hello there'')))"
  by code_simp

theorem classify_task_order_witness:
  "(\<exists>t \<in> set research_terms. str_in t (ascii_lower (u ''Research PAPER about Python code'')))
   \<and> (\<exists>c \<in> set code_terms. str_in c (ascii_lower (u ''Research PAPER about Python code'')))
   \<and> classify_task ascii_lower (u ''Research PAPER about Python code'') None = u ''research''
   \<and> \<not> (\<exists>t \<in> set research_terms. str_in t (ascii_lower (u ''Hello there'')))
   \<and> \<not> (\<exists>c \<in> set code_terms. str_in c (ascii_lower (u ''Hello there'')))
   \<and> \<not> truthy_opt None
   \<and> classify_task ascii_lower (u ''Hello there'') None = u ''general''"
  using classify_task_order [of ascii_lower "u ''Research PAPER about Python code''" None]
    classify_task_order [of ascii_lower "u ''Hello there''" None]
    research_prompt_has_research_term research_prompt_has_code_term
    greeting_has_no_research_term greeting_has_no_code_term
  by simp

section \<open>The key rotator\<close>

text \<open>
  C10.  With an empty credential pool \<open>request_with_rotation\<close> raises the \<open>RuntimeError\<close>
  at once: the state it leaves is the state it was called in, so no request was issued
  and no counter of the metrics changed.
\<close>

theorem request_with_rotation_no_keys:
  "request_with_rotation e pl [] max_retries_per_key backoff_seconds w =
     (Inl (RuntimeError
        (u ''No API keys found. Set OPENROUTER_API_KEYS or OPENROUTER_API_KEY_1.'')), w)"
  by (simp add: request_with_rotation_def)

section \<open>The response normalizer\<close>

lemma clean_empty_content:
  "clean_markdown_formatting (u ''(empty content)'') = u ''(empty content)''"
  by (simp add: regex_defs clean_defs eval_simps)

lemma clean_no_text_parts:
  "clean_markdown_formatting (u ''(no text parts)'') = u ''(no text parts)''"
  by (simp add: regex_defs clean_defs eval_simps)

lemma clean_space: "clean_markdown_formatting (u '' '') = []"
  by (simp add: regex_defs clean_defs eval_simps)

lemma raw_text_of_nonempty: "raw_text_of content = Inr raw_text \<Longrightarrow> raw_text \<noteq> []"
  by (cases content) (auto simp: raw_text_of_def ebind_def u_def split: sum.splits if_splits)

lemma raw_text_of_origin:
  assumes "raw_text_of content = Inr raw_text"
    and "clean_markdown_formatting raw_text = []"
  shows "truthy content
         \<and> (content = JStr raw_text
              \<or> (\<exists>cs parts. content = JList cs
                    \<and> join_values (filter truthy (text_parts cs)) = Inr parts
                    \<and> raw_text = join [nl] parts))"
proof -
  have a: "raw_text \<noteq> u ''(empty content)''"
    using assms(2) clean_empty_content by (auto simp: u_def)
  have b: "raw_text \<noteq> u ''(no text parts)''"
    using assms(2) clean_no_text_parts by (auto simp: u_def)
  show ?thesis
  proof (cases content)
    case (JList cs)
    with assms(1) a b show ?thesis
      by (auto simp: raw_text_of_def ebind_def join_values_def split: sum.splits if_splits)
  qed (use assms(1) a b in \<open>auto simp: raw_text_of_def split: if_splits\<close>)
qed

lemma raw_text_of_falsy:
  "\<not> truthy content \<Longrightarrow> content \<noteq> JList [] \<Longrightarrow> raw_text_of content = Inr (u ''(empty content)'')"
  by (cases content) (auto simp: raw_text_of_def)

lemma raw_text_of_no_parts:
  "filter truthy (text_parts cs) = [] \<Longrightarrow> raw_text_of (JList cs) = Inr (u ''(no text parts)'')"
  by (simp add: raw_text_of_def ebind_def join_values_def)

lemma extract_empty_only_by_cleaning:
  assumes "extract_assistant_text result = []"
  shows "\<exists>got choice msg content raw_text.
           py_get result (u ''choices'') JNull = Inr got \<and> truthy got
           \<and> py_first got = Inr choice
           \<and> py_get choice (u ''message'') (JDict []) = Inr msg
           \<and> py_get msg (u ''content'') JNull = Inr content
           \<and> truthy content
           \<and> (content = JStr raw_text
                \<or> (\<exists>cs parts. content = JList cs
                      \<and> join_values (filter truthy (text_parts cs)) = Inr parts
                      \<and> raw_text = join [nl] parts))
           \<and> raw_text_of content = Inr raw_text
           \<and> raw_text \<noteq> [] \<and> clean_markdown_formatting raw_text = []"
proof (cases "extract_body result")
  case (Inl e)
  with assms show ?thesis
    by (simp add: extract_assistant_text_def u_def)
next
  case (Inr out)
  with assms have empty: "out = []"
    by (simp add: extract_assistant_text_def)
  from Inr empty obtain got choice msg content raw_text where chain:
    "py_get result (u ''choices'') JNull = Inr got" "truthy got"
    "py_first got = Inr choice"
    "py_get choice (u ''message'') (JDict []) = Inr msg"
    "py_get msg (u ''content'') JNull = Inr content"
    "raw_text_of content = Inr raw_text"
    "clean_markdown_formatting raw_text = []"
    by (auto simp: extract_body_def ebind_def u_def split: sum.splits if_splits)
  from raw_text_of_origin [OF chain(6,7)] raw_text_of_nonempty [OF chain(6)] chain
  show ?thesis
    by blast
qed

text \<open>
  C7, as amended.  \<open>extract_assistant_text\<close> is total: every exception of its body is
  turned into a string that starts with ``Failed to parse response: ''.  A missing,
  null or empty choices list gives the placeholder ``(no choices in response)'', a missing
  or empty content gives ``(empty content)'', a content list without text parts gives
  ``(no text parts)''.  The returned string is empty only when the content of the first
  choice is truthy and its text (the content itself when it is a string, the joined text
  parts when it is a list), which is not empty, is reduced to nothing by
  \<open>clean_markdown_formatting\<close>.
\<close>

theorem extract_assistant_text_cases:
  "(py_get result (u ''choices'') JNull = Inr got \<and> \<not> truthy got
      \<longrightarrow> extract_assistant_text result = u ''(no choices in response)'')
   \<and> (py_get result (u ''choices'') JNull = Inr got \<and> truthy got
        \<and> py_first got = Inr choice
        \<and> py_get choice (u ''message'') (JDict []) = Inr msg
        \<and> py_get msg (u ''content'') JNull = Inr content
        \<and> \<not> truthy content \<and> content \<noteq> JList []
      \<longrightarrow> extract_assistant_text result = u ''(empty content)'')
   \<and> (py_get result (u ''choices'') JNull = Inr got \<and> truthy got
        \<and> py_first got = Inr choice
        \<and> py_get choice (u ''message'') (JDict []) = Inr msg
        \<and> py_get msg (u ''content'') JNull = Inr (JList cs)
        \<and> filter truthy (text_parts cs) = []
      \<longrightarrow> extract_assistant_text result = u ''(no text parts)'')
   \<and> (extract_body result = Inl err
      \<longrightarrow> extract_assistant_text result = u ''Failed to parse response: '' @ error_text err)
   \<and> (extract_assistant_text result = []
      \<longrightarrow> (\<exists>got choice msg content raw_text.
             py_get result (u ''choices'') JNull = Inr got \<and> truthy got
             \<and> py_first got = Inr choice
             \<and> py_get choice (u ''message'') (JDict []) = Inr msg
             \<and> py_get msg (u ''content'') JNull = Inr content
             \<and> truthy content
             \<and> (content = JStr raw_text
                  \<or> (\<exists>cs parts. content = JList cs
                        \<and> join_values (filter truthy (text_parts cs)) = Inr parts
                        \<and> raw_text = join [nl] parts))
             \<and> raw_text_of content = Inr raw_text
             \<and> raw_text \<noteq> [] \<and> clean_markdown_formatting raw_text = []))"
proof (intro conjI impI)
  assume "py_get result (u ''choices'') JNull = Inr got \<and> \<not> truthy got"
  then show "extract_assistant_text result = u ''(no choices in response)''"
    by (simp add: extract_assistant_text_def extract_body_def ebind_def)
next
  assume "py_get result (u ''choices'') JNull = Inr got \<and> truthy got
        \<and> py_first got = Inr choice
        \<and> py_get choice (u ''message'') (JDict []) = Inr msg
        \<and> py_get msg (u ''content'') JNull = Inr content
        \<and> \<not> truthy content \<and> content \<noteq> JList []"
  then show "extract_assistant_text result = u ''(empty content)''"
    by (simp add: extract_assistant_text_def extract_body_def ebind_def raw_text_of_falsy
        clean_empty_content)
next
  assume "py_get result (u ''choices'') JNull = Inr got \<and> truthy got
        \<and> py_first got = Inr choice
        \<and> py_get choice (u ''message'') (JDict []) = Inr msg
        \<and> py_get msg (u ''content'') JNull = Inr (JList cs)
        \<and> filter truthy (text_parts cs) = []"
  then show "extract_assistant_text result = u ''(no text parts)''"
    by (simp add: extract_assistant_text_def extract_body_def ebind_def raw_text_of_no_parts
        clean_no_text_parts)
next
  assume "extract_body result = Inl err"
  then show "extract_assistant_text result = u ''Failed to parse response: '' @ error_text err"
    by (simp add: extract_assistant_text_def)
next
  assume "extract_assistant_text result = []"
  then show "\<exists>got choice msg content raw_text.
             py_get result (u ''choices'') JNull = Inr got \<and> truthy got
             \<and> py_first got = Inr choice
             \<and> py_get choice (u ''message'') (JDict []) = Inr msg
             \<and> py_get msg (u ''content'') JNull = Inr content
             \<and> truthy content
             \<and> (content = JStr raw_text
                  \<or> (\<exists>cs parts. content = JList cs
                        \<and> join_values (filter truthy (text_parts cs)) = Inr parts
                        \<and> raw_text = join [nl] parts))
             \<and> raw_text_of content = Inr raw_text
             \<and> raw_text \<noteq> [] \<and> clean_markdown_formatting raw_text = []"
    by (rule extract_empty_only_by_cleaning)
qed

lemma extract_whitespace_content:
  "extract_assistant_text
     (JDict [(u ''choices'',
        JList [JDict [(u ''message'', JDict [(u ''content'', JStr (u '' ''))])]])]) = []"
  by (simp add: extract_assistant_text_def extract_body_def ebind_def raw_text_of_def clean_space)
    (simp add: u_def)

theorem extract_assistant_text_cases_witness:
  "extract_assistant_text (JDict []) = u ''(no choices in response)''
   \<and> extract_assistant_text (JDict [(u ''choices'', JList [])]) = u ''(no choices in response)''
   \<and> extract_assistant_text
        (JDict [(u ''choices'', JList [JDict [(u ''message'', JDict [])]])])
       = u ''(empty content)''
   \<and> extract_assistant_text
        (JDict [(u ''choices'',
           JList [JDict [(u ''message'', JDict [(u ''content'', JList [])])]])])
       = u ''(no text parts)''
   \<and> extract_assistant_text JNull
       = u ''Failed to parse response: '' @ quoted (u ''NoneType'')
           @ u '' object has no attribute '' @ quoted (u ''get'')
   \<and> (\<exists>got choice msg content raw_text.
         py_get (JDict [(u ''choices'',
                   JList [JDict [(u ''message'', JDict [(u ''content'', JStr (u '' ''))])]])])
            (u ''choices'') JNull = Inr got \<and> truthy got
         \<and> py_first got = Inr choice
         \<and> py_get choice (u ''message'') (JDict []) = Inr msg
         \<and> py_get msg (u ''content'') JNull = Inr content
         \<and> truthy content
         \<and> (content = JStr raw_text
              \<or> (\<exists>cs parts. content = JList cs
                    \<and> join_values (filter truthy (text_parts cs)) = Inr parts
                    \<and> raw_text = join [nl] parts))
         \<and> raw_text_of content = Inr raw_text
         \<and> raw_text \<noteq> [] \<and> clean_markdown_formatting raw_text = [])"
proof (intro conjI)
  show "extract_assistant_text (JDict []) = u ''(no choices in response)''"
    using extract_assistant_text_cases [where result = "JDict []" and got = JNull]
    by simp
  show "extract_assistant_text (JDict [(u ''choices'', JList [])])
          = u ''(no choices in response)''"
    using extract_assistant_text_cases
      [where result = "JDict [(u ''choices'', JList [])]" and got = "JList []"]
    by simp
  show "extract_assistant_text
          (JDict [(u ''choices'', JList [JDict [(u ''message'', JDict [])]])])
        = u ''(empty content)''"
    using extract_assistant_text_cases
      [where result = "JDict [(u ''choices'', JList [JDict [(u ''message'', JDict [])]])]"
         and got = "JList [JDict [(u ''message'', JDict [])]]"
         and choice = "JDict [(u ''message'', JDict [])]"
         and msg = "JDict []" and content = JNull]
    by simp
  show "extract_assistant_text
          (JDict [(u ''choices'',
             JList [JDict [(u ''message'', JDict [(u ''content'', JList [])])]])])
        = u ''(no text parts)''"
    using extract_assistant_text_cases
      [where result = "JDict [(u ''choices'',
             JList [JDict [(u ''message'', JDict [(u ''content'', JList [])])]])]"
         and got = "JList [JDict [(u ''message'', JDict [(u ''content'', JList [])])]]"
         and choice = "JDict [(u ''message'', JDict [(u ''content'', JList [])])]"
         and msg = "JDict [(u ''content'', JList [])]" and cs = "[]"]
    by simp
  show "extract_assistant_text JNull
          = u ''Failed to parse response: '' @ quoted (u ''NoneType'')
              @ u '' object has no attribute '' @ quoted (u ''get'')"
    using extract_assistant_text_cases
      [where result = JNull
         and err = "AttributeError (quoted (u ''NoneType'') @ u '' object has no attribute ''
                      @ quoted (u ''get''))"]
    by (simp add: extract_body_def ebind_def)
  show "\<exists>got choice msg content raw_text.
         py_get (JDict [(u ''choices'',
                   JList [JDict [(u ''message'', JDict [(u ''content'', JStr (u '' ''))])]])])
            (u ''choices'') JNull = Inr got \<and> truthy got
         \<and> py_first got = Inr choice
         \<and> py_get choice (u ''message'') (JDict []) = Inr msg
         \<and> py_get msg (u ''content'') JNull = Inr content
         \<and> truthy content
         \<and> (content = JStr raw_text
              \<or> (\<exists>cs parts. content = JList cs
                    \<and> join_values (filter truthy (text_parts cs)) = Inr parts
                    \<and> raw_text = join [nl] parts))
         \<and> raw_text_of content = Inr raw_text
         \<and> raw_text \<noteq> [] \<and> clean_markdown_formatting raw_text = []"
    using extract_assistant_text_cases
      [where result = "JDict [(u ''choices'',
                JList [JDict [(u ''message'', JDict [(u ''content'', JStr (u '' ''))])]])]"]
      extract_whitespace_content
    by simp
qed

text \<open>
  C7 as stated fails: for a first choice whose content is a single space the returned
  string is empty.
\<close>

theorem whitespace_content_gives_empty_text:
  "extract_assistant_text
     (JDict [(u ''choices'',
        JList [JDict [(u ''message'', JDict [(u ''content'', JStr (u '' ''))])]])]) = []"
  by (rule extract_whitespace_content)

section \<open>The markdown cleaner\<close>

text \<open>
  C8.  The text is the bold word \<open>a\<close>, a line break and a fenced block whose interior is
  the bold-looking \<open>b\<close> between line breaks.  The bold markers outside the fence are stripped,
  but the fence does not come back: its placeholder \<open>___CODE_BLOCK_0___\<close> is itself rewritten
  by the substitution for \<open>_italic_\<close>, so the restoring loop finds nothing to replace.
\<close>

theorem fenced_block_not_restored:
  "clean_markdown_formatting (u ''**a**\<newline>```\<newline>**b**\<newline>```'')
     = u ''a\<newline>__CODEBLOCK0__''"
  by (simp add: regex_defs clean_defs eval_simps)

section \<open>The scenarios, evaluated\<close>

lemma rate_limited_run:
  "generate_response env_429 (u ''hi'') None 0.7 world0 =
     (Inr (rate_limited_response (models_for env_429 (u ''general'')) (u ''general'')),
      world0\<lparr>metrics := \<lparr>attempts = 3, successful_calls = 0, errors_total = 3,
                           bytes_received = 0, last_latency_ms = 1000\<rparr>,
             clock := 18,
             http_log := map (\<lambda>m. OpenRouterPost (u ''k1'') None None
                           \<lparr>p_model = m, p_messages = [Message (u ''user'') (TextContent (u ''hi''))],
                            p_temperature = 0.7\<rparr>) (models_for env_429 (u ''general''))\<rparr>)"
  by (simp add: router_defs fixture_defs eval_simps u_def nl_def)

lemma ok_run:
  "generate_response env_ok (u ''hi'') None 0.7 world0 =
     (Inr \<lparr>model = JStr (u ''m1''), task_type = u ''general'', assistant_text = u ''Hello'',
           raw = hello_json\<rparr>,
      world0\<lparr>metrics := \<lparr>attempts = 1, successful_calls = 1, errors_total = 0,
                           bytes_received = 0, last_latency_ms = 1000\<rparr>,
             clock := 1,
             http_log := [OpenRouterPost (u ''k1'') None None
                           \<lparr>p_model = u ''google/gemini-1.5-flash-latest'',
                            p_messages = [Message (u ''user'') (TextContent (u ''hi''))],
                            p_temperature = 0.7\<rparr>],
             response_cache := [u ''hi||general'' \<mapsto>
               (\<lparr>model = JStr (u ''m1''), task_type = u ''general'', assistant_text = u ''Hello'',
                 raw = hello_json\<rparr>, 1)]\<rparr>)"
  by (simp add: router_defs fixture_defs eval_simps u_def nl_def extract_assistant_text_def
      extract_body_def ebind_def raw_text_of_def regex_defs clean_defs Let_def)

lemma gemini_404_run:
  "generate_gemini_response env_404 (u ''hi'') None 0.7 (u ''gemini-2.5-flash'') False world0 =
     (Inl (GeminiError
        (u ''Gemini API failed after trying models=''
         @ repr_list (map u [''gemini-2.5-flash'', ''gemini-flash-latest'',
                             ''gemini-2.5-flash-lite'', ''gemini-2.0-flash'',
                             ''gemini-2.5-flash-preview''])
         @ u '' last_error=HTTP 404 not found''
         @ u ''. Set GEMINI_MODEL or GEMINI_PREFERRED_FAMILY to override.'')),
      world0\<lparr>http_log :=
               [GeminiPost (u ''gemini-2.5-flash'') (u ''g1'')
                  \<lparr>g_parts = [TextPart (u ''hi'')], g_temperature = 0.7\<rparr>,
                GeminiList (u ''g1''),
                GeminiPost (u ''gemini-flash-latest'') (u ''g1'')
                  \<lparr>g_parts = [TextPart (u ''hi'')], g_temperature = 0.7\<rparr>,
                GeminiPost (u ''gemini-2.5-flash-lite'') (u ''g1'')
                  \<lparr>g_parts = [TextPart (u ''hi'')], g_temperature = 0.7\<rparr>,
                GeminiPost (u ''gemini-2.0-flash'') (u ''g1'')
                  \<lparr>g_parts = [TextPart (u ''hi'')], g_temperature = 0.7\<rparr>],
             model_list_cache :=
               Some (0, [JStr (u ''models/gemini-2.5-flash-preview'')])\<rparr>)"
  by (simp add: gemini_defs fixture_defs eval_simps u_def nl_def)

section \<open>The direct Gemini client\<close>

text \<open>
  C6.  Every candidate of the default model answers 404, and the listing names
  \<open>models/gemini-2.5-flash-preview\<close>.  The discovered name is appended to the candidate
  list (the final message shows it), but the loop runs over the copy of the list taken
  before the first iteration: the requests sent are the four initial candidates, and the
  call fails without a request for the discovered one.
\<close>

theorem discovered_candidate_never_attempted:
  "(case generate_gemini_response env_404 (u ''hi'') None 0.7 (u ''gemini-2.5-flash'') False
           world0 of
      (result, w) \<Rightarrow>
        result = Inl (GeminiError
          (u ''Gemini API failed after trying models=''
           @ repr_list (map u [''gemini-2.5-flash'', ''gemini-flash-latest'',
                               ''gemini-2.5-flash-lite'', ''gemini-2.0-flash'',
                               ''gemini-2.5-flash-preview''])
           @ u '' last_error=HTTP 404 not found''
           @ u ''. Set GEMINI_MODEL or GEMINI_PREFERRED_FAMILY to override.''))
        \<and> posted_candidates (http_log w) =
            map u [''gemini-2.5-flash'', ''gemini-flash-latest'', ''gemini-2.5-flash-lite'',
                   ''gemini-2.0-flash''])"
  unfolding gemini_404_run by simp

section \<open>The response cache\<close>

lemma cache_hit:
  assumes "generate_cache_key e prompt image_url (classify_task (lower e) prompt image_url)
             = Inr cache_key"
    and "response_cache w cache_key = Some (r, ts)"
    and "clock w - ts < CACHE_TTL"
  shows "generate_response e prompt image_url temperature w = (Inr r, w)"
  using assms by (simp add: generate_response_def get_cached_response_def Let_def)

lemma returned_has_key:
  "generate_response e prompt image_url temperature w = (Inr r, w') \<Longrightarrow>
     \<exists>cache_key. generate_cache_key e prompt image_url
                    (classify_task (lower e) prompt image_url) = Inr cache_key"
  by (auto simp: generate_response_def Let_def split: sum.splits)

lemma finish_caches:
  "finish m task raw_json k w = (Inr r, w') \<Longrightarrow>
     response_cache w' k = Some (r, clock w') \<and> clock w' = clock w"
  by (auto simp: finish_def cache_response_def Let_def)

lemma cache_response_entry:
  "response_cache (cache_response k r w) k = Some (r, clock (cache_response k r w))"
  by (simp add: cache_response_def)

lemma last_resort_caches:
  "last_resort e prompt image_url temperature task k pl api_keys err w = (Inr r, w') \<Longrightarrow>
     response_cache w' k = Some (r, clock w')"
  by (auto simp: last_resort_def cache_response_def dest: finish_caches
      split: prod.splits sum.splits if_splits)

lemma general_path_caches:
  "general_path e prompt image_url temperature task k w = (Inr r, w') \<Longrightarrow>
     r \<noteq> rate_limited_response (models_for e task) task \<Longrightarrow>
     response_cache w' k = Some (r, clock w')"
  by (auto simp: general_path_def Let_def cache_response_def
      dest: finish_caches last_resort_caches
      split: prod.splits sum.splits if_splits error.splits)

section \<open>Rate limiting on every attempt\<close>

lemma str_in_append_left: "str_in x b \<Longrightarrow> str_in x (a @ b)"
  unfolding str_in_def
  by (rule sublist_order.order.trans [OF _ sublist_append_leftI])

lemma str_in_append_right: "str_in x a \<Longrightarrow> str_in x (a @ b)"
  unfolding str_in_def
  by (rule sublist_order.order.trans [OF _ sublist_append_rightI])

lemma str_int_429: "str_int 429 = u ''429''"
  by (simp add: str_int_def eval_simps u_def)

lemma attempt_line_status_429: "str_in (u ''429'') (attempt_line key_index attempt 429 snippet)"
  unfolding attempt_line_def str_int_429
  by (intro str_in_append_left str_in_append_right) (simp add: str_in_def)

lemma attempt_line_snippet_429:
  "str_in (u ''429'') snippet \<Longrightarrow> str_in (u ''429'') (attempt_line key_index attempt status snippet)"
  unfolding attempt_line_def
  by (intro str_in_append_left)

lemma network_error_line_429:
  "str_in (u ''429'') msg \<Longrightarrow> str_in (u ''429'') (network_error_line key_index attempt msg)"
  unfolding network_error_line_def
  by (intro str_in_append_left)

lemma key_attempts_rate_limited:
  assumes rl: "\<And>history req. rate_limited_reply (snd (http e history req))"
  shows "\<exists>le' new w'.
           key_attempts e pl key key_index backoff atts (le, summary, w)
             = Inr (le', summary @ new, w')
           \<and> list_all (str_in (u ''429'')) new \<and> (atts \<noteq> [] \<longrightarrow> new \<noteq> [])
           \<and> response_cache w' = response_cache w"
proof (induction atts arbitrary: le summary w)
  case Nil
  show ?case by simp
next
  case (Cons attempt rest)
  let ?w1 = "w\<lparr>metrics := (metrics w)\<lparr>attempts := attempts (metrics w) + 1\<rparr>\<rparr>"
  let ?req = "OpenRouterPost key (header_of e (u ''INTELLIHUB_REFERER''))
                     (header_of e (u ''INTELLIHUB_TITLE'')) pl"
  obtain dt rep where h: "http e (http_log ?w1) ?req = (dt, rep)"
    by (cases "http e (http_log ?w1) ?req")
  from rl [of "http_log ?w1" ?req] h have flav: "rate_limited_reply rep"
    by simp
  show ?case
  proof (cases rep)
    case (NetworkError msg)
    with flav have m: "str_in (u ''429'') msg"
      by (simp add: rate_limited_reply_def)
    let ?line = "network_error_line key_index attempt msg"
    let ?w3 = "sleep (real backoff) (?w1\<lparr>http_log := http_log ?w1 @ [?req], clock := clock ?w1 + dt\<rparr>)"
    from Cons.IH [of "Some ?line" "summary @ [?line]" ?w3]
    obtain le' new w' where ih:
      "key_attempts e pl key key_index backoff rest (Some ?line, summary @ [?line], ?w3)
         = Inr (le', (summary @ [?line]) @ new, w')"
      "list_all (str_in (u ''429'')) new" "response_cache w' = response_cache ?w3"
      by blast
    have "key_attempts e pl key key_index backoff (attempt # rest) (le, summary, w)
            = Inr (le', summary @ (?line # new), w')"
      using h NetworkError ih(1) by (simp add: send_def Let_def)
    moreover have "list_all (str_in (u ''429'')) (?line # new)"
      using ih(2) network_error_line_429 [OF m] by simp
    moreover have "response_cache w' = response_cache w"
      using ih(3) by (simp add: sleep_def)
    ultimately show ?thesis
      by blast
  next
    case (Reply resp)
    let ?snippet = "replace_char nl 32 (take 180 (resp_text resp))"
    let ?line = "attempt_line key_index attempt (status_code resp) ?snippet"
    let ?w2 = "?w1\<lparr>http_log := http_log ?w1 @ [?req], clock := clock ?w1 + dt\<rparr>"
    let ?w3 = "?w2\<lparr>metrics := (metrics ?w2)
                 \<lparr>last_latency_ms := elapsed_ms e (clock ?w1) (clock ?w2)\<rparr>\<rparr>"
    from flav Reply have not200: "status_code resp \<noteq> 200"
      and why: "status_code resp = 429 \<or> str_in (u ''429'') ?snippet"
      by (simp_all add: rate_limited_reply_def)
    have line: "str_in (u ''429'') ?line"
      using why attempt_line_status_429 attempt_line_snippet_429 by metis
    show ?thesis
    proof (cases "status_code resp = 429")
      case True
      let ?w4 = "sleep (real (backoff * 2 ^ (attempt - 1))) ?w3"
      from Cons.IH [of le "summary @ [?line]" ?w4]
      obtain le' new w' where ih:
        "key_attempts e pl key key_index backoff rest (le, summary @ [?line], ?w4)
           = Inr (le', (summary @ [?line]) @ new, w')"
        "list_all (str_in (u ''429'')) new" "response_cache w' = response_cache ?w4"
        by blast
      have "key_attempts e pl key key_index backoff (attempt # rest) (le, summary, w)
              = Inr (le', summary @ (?line # new), w')"
        using h Reply True ih(1) by (simp add: send_def Let_def)
      moreover have "list_all (str_in (u ''429'')) (?line # new)"
        using ih(2) line by simp
      moreover have "response_cache w' = response_cache w"
        using ih(3) by (simp add: sleep_def)
      ultimately show ?thesis
        by blast
    next
      case False
      then have "\<exists>le'. key_attempts e pl key key_index backoff (attempt # rest) (le, summary, w)
              = Inr (le', summary @ [?line], ?w3)"
        using h Reply not200 by (simp add: send_def Let_def)
      moreover have "list_all (str_in (u ''429'')) [?line]"
        using line by simp
      moreover have "response_cache ?w3 = response_cache w"
        by simp
      ultimately show ?thesis
        by blast
    qed
  qed
qed

lemma str_in_nonempty: "str_in (u ''429'') s \<Longrightarrow> s \<noteq> []"
  by (auto simp: str_in_def u_def)

lemma join_429:
  "xs \<noteq> [] \<Longrightarrow> list_all (str_in (u ''429'')) xs \<Longrightarrow> str_in (u ''429'') (join sep xs)"
proof (cases xs)
  case Nil
  assume "xs \<noteq> []"
  with Nil show ?thesis by simp
next
  case (Cons x rest)
  assume "list_all (str_in (u ''429'')) xs"
  with Cons show ?thesis
    by (cases rest) (auto intro: str_in_append_right)
qed

lemma all_429_I: "list_all (str_in (u ''429'')) xs \<Longrightarrow> all_429 xs"
  by (simp add: all_429_def list_all_iff)

lemma keys_loop_rate_limited:
  assumes rl: "\<And>history req. rate_limited_reply (snd (http e history req))"
  shows "\<exists>le' new w'.
           keys_loop e pl n backoff ks (le, summary, w) = Inr (le', summary @ new, w')
           \<and> list_all (str_in (u ''429'')) new \<and> (ks \<noteq> [] \<and> 0 < n \<longrightarrow> new \<noteq> [])
           \<and> response_cache w' = response_cache w"
proof (induction ks arbitrary: le summary w)
  case Nil
  show ?case by simp
next
  case (Cons k rest)
  obtain key_index key where k: "k = (key_index, key)"
    by (cases k)
  from key_attempts_rate_limited [OF rl, of pl key key_index backoff "[1..<n + 1]" le summary w]
  obtain le1 new1 w1 where first:
    "key_attempts e pl key key_index backoff [1..<n + 1] (le, summary, w)
       = Inr (le1, summary @ new1, w1)"
    "list_all (str_in (u ''429'')) new1" "[1..<n + 1] \<noteq> [] \<longrightarrow> new1 \<noteq> []"
    "response_cache w1 = response_cache w"
    by blast
  from Cons.IH [of le1 "summary @ new1" w1]
  obtain le2 new2 w2 where rest:
    "keys_loop e pl n backoff rest (le1, summary @ new1, w1)
       = Inr (le2, (summary @ new1) @ new2, w2)"
    "list_all (str_in (u ''429'')) new2" "response_cache w2 = response_cache w1"
    by blast
  have "keys_loop e pl n backoff (k # rest) (le, summary, w)
          = Inr (le2, summary @ (new1 @ new2), w2)"
    using k first(1) rest(1) by simp
  moreover have "list_all (str_in (u ''429'')) (new1 @ new2)"
    using first(2) rest(2) by simp
  moreover have "0 < n \<longrightarrow> new1 @ new2 \<noteq> []"
    using first(3) by simp
  moreover have "response_cache w2 = response_cache w"
    using first(4) rest(3) by simp
  ultimately show ?case
    by blast
qed

lemma request_with_rotation_rate_limited:
  assumes rl: "\<And>history req. rate_limited_reply (snd (http e history req))"
    and keys: "api_keys \<noteq> []" and n: "0 < n"
  shows "\<exists>msg w'. request_with_rotation e pl api_keys n backoff w
                     = (Inl (RateLimitExhaustedError msg), w')
           \<and> str_in (u ''429'') msg \<and> response_cache w' = response_cache w"
proof -
  from keys have en: "enumerate_from0 api_keys \<noteq> []"
    by (simp add: enumerate_from0_def)
  from keys_loop_rate_limited [OF rl, of pl n backoff "enumerate_from0 api_keys" None "[]" w]
  obtain le' new w' where loop:
    "keys_loop e pl n backoff (enumerate_from0 api_keys) (None, [], w) = Inr (le', new, w')"
    "list_all (str_in (u ''429'')) new" "new \<noteq> []"
    "response_cache w' = response_cache w"
    using en n by auto
  have d: "str_in (u ''429'') (join (u '' | '') new)"
    using loop(2,3) by (intro join_429)
  then have "join (u '' | '') new \<noteq> []"
    by (rule str_in_nonempty)
  with keys loop d all_429_I [OF loop(2)] show ?thesis
    by (auto simp: request_with_rotation_def Let_def intro: str_in_append_left)
qed

lemma models_loop_rate_limited:
  assumes rl: "\<And>history req. rate_limited_reply (snd (http e history req))"
    and keys: "api_keys \<noteq> []"
  shows "ms \<noteq> [] \<or> (truthy_opt le \<and> str_in (u ''429'') (str_opt le)) \<Longrightarrow>
         \<exists>msg w'. models_loop e n pl api_keys ms (le, True, w)
                     = (Inl (RateLimitExhaustedError msg), w')
           \<and> response_cache w' = response_cache w"
proof (induction ms arbitrary: le w)
  case Nil
  then show ?case by simp
next
  case (Cons m rest)
  from request_with_rotation_rate_limited [OF rl keys, of 1 "pl\<lparr>p_model := m\<rparr>" 5 w]
  obtain msg w1 where first:
    "request_with_rotation e (pl\<lparr>p_model := m\<rparr>) api_keys 1 5 w
       = (Inl (RateLimitExhaustedError msg), w1)"
    "str_in (u ''429'') msg" "response_cache w1 = response_cache w"
    by auto
  show ?case
  proof (cases "1 < n")
    case True
    have "truthy_opt (Some msg) \<and> str_in (u ''429'') (str_opt (Some msg))"
      using first(2) str_in_nonempty by (simp add: str_opt_def)
    from Cons.IH [of "Some msg" w1] this
    obtain msg' w' where "models_loop e n pl api_keys rest (Some msg, True, w1)
        = (Inl (RateLimitExhaustedError msg'), w')" "response_cache w' = response_cache w1"
      by blast
    with first True show ?thesis
      by simp
  next
    case False
    with first show ?thesis
      by simp
  qed
qed

lemma models_for_nonempty: "models_for e task \<noteq> []"
  by (simp add: models_for_def DEFAULT_FALLBACK_MODEL_def split: option.splits)

lemma general_path_rate_limited:
  assumes rl: "\<And>history req. rate_limited_reply (snd (http e history req))"
    and keys: "collect_api_keys e \<noteq> []"
  shows "\<exists>w'. general_path e prompt image_url temperature task cache_key w
                 = (Inr (rate_limited_response (models_for e task) task), w')
           \<and> response_cache w' = response_cache w"
proof -
  let ?pl = "\<lparr>p_model = hd (models_for e task), p_messages = build_messages prompt image_url,
                p_temperature = temperature\<rparr>"
  from models_loop_rate_limited [OF rl keys, of "models_for e task" None
      "length (models_for e task)" ?pl w]
  obtain msg w' where "try_models_with_fallback e (models_for e task) ?pl (collect_api_keys e) w
      = (Inl (RateLimitExhaustedError msg), w')" "response_cache w' = response_cache w"
    using models_for_nonempty by (auto simp: try_models_with_fallback_def)
  with keys show ?thesis
    by (simp add: general_path_def Let_def)
qed

section \<open>The rotator's errors, cache and requests\<close>

lemma key_attempts_error_kind:
  "key_attempts e pl key key_index backoff atts st = Inl (Inl err, w') \<Longrightarrow> is_RuntimeError err"
proof (induction atts arbitrary: st)
  case Nil
  then show ?case by simp
next
  case (Cons attempt rest)
  obtain le summary w where st: "st = (le, summary, w)"
    by (cases st)
  from Cons.prems show ?case
    unfolding st
    by (auto simp: Let_def split: prod.splits reply.splits option.splits if_splits
        dest: Cons.IH)
qed

lemma keys_loop_error_kind:
  "keys_loop e pl n backoff ks st = Inl (Inl err, w') \<Longrightarrow> is_RuntimeError err"
proof (induction ks arbitrary: st)
  case Nil
  then show ?case by simp
next
  case (Cons k rest)
  obtain key_index key where k: "k = (key_index, key)"
    by (cases k)
  from Cons.prems show ?case
    unfolding k
    by (auto split: sum.splits dest: Cons.IH key_attempts_error_kind)
qed

lemma request_with_rotation_error_kind:
  "request_with_rotation e pl api_keys n backoff w = (Inl err, w') \<Longrightarrow> is_RuntimeError err"
  by (auto simp: request_with_rotation_def Let_def
      split: if_splits sum.splits prod.splits dest: keys_loop_error_kind)
lemma key_attempts_log:
  "(case key_attempts e pl key key_index backoff atts (le, summary, w) of
      Inl (r, w') \<Rightarrow>
        response_cache w' = response_cache w \<and> (\<exists>more. http_log w' = http_log w @ more)
    | Inr (le', summary', w') \<Rightarrow>
        response_cache w' = response_cache w \<and> (\<exists>more. http_log w' = http_log w @ more))"
proof (induction atts arbitrary: le summary w)
  case Nil
  show ?case by simp
next
  case (Cons attempt rest)
  let ?w1 = "w\<lparr>metrics := (metrics w)\<lparr>attempts := attempts (metrics w) + 1\<rparr>\<rparr>"
  let ?req = "OpenRouterPost key (header_of e (u ''INTELLIHUB_REFERER''))
                     (header_of e (u ''INTELLIHUB_TITLE'')) pl"
  obtain dt rep where h: "http e (http_log ?w1) ?req = (dt, rep)"
    by (cases "http e (http_log ?w1) ?req")
  let ?w2 = "?w1\<lparr>http_log := http_log ?w1 @ [?req], clock := clock ?w1 + dt\<rparr>"
  show ?case
  proof (cases rep)
    case (NetworkError msg)
    let ?line = "network_error_line key_index attempt msg"
    from Cons.IH [where le = "Some ?line" and summary = "summary @ [?line]"
        and w = "sleep (real backoff) ?w2"]
    show ?thesis
      using h NetworkError
      by (auto simp: send_def Let_def sleep_def split: sum.splits prod.splits)
  next
    case (Reply resp)
    let ?snippet = "replace_char nl 32 (take 180 (resp_text resp))"
    let ?line = "attempt_line key_index attempt (status_code resp) ?snippet"
    let ?w3 = "?w2\<lparr>metrics := (metrics ?w2)
                 \<lparr>last_latency_ms := elapsed_ms e (clock ?w1) (clock ?w2)\<rparr>\<rparr>"
    from Cons.IH [where le = le and summary = "summary @ [?line]"
        and w = "sleep (real (backoff * 2 ^ (attempt - 1))) ?w3"]
    show ?thesis
      using h Reply
      by (auto simp: send_def Let_def sleep_def split: sum.splits prod.splits option.splits)
  qed
qed

lemma keys_loop_log:
  "(case keys_loop e pl n backoff ks (le, summary, w) of
      Inl (r, w') \<Rightarrow>
        response_cache w' = response_cache w \<and> (\<exists>more. http_log w' = http_log w @ more)
    | Inr (le', summary', w') \<Rightarrow>
        response_cache w' = response_cache w \<and> (\<exists>more. http_log w' = http_log w @ more))"
proof (induction ks arbitrary: le summary w)
  case Nil
  show ?case by simp
next
  case (Cons k rest)
  obtain key_index key where k: "k = (key_index, key)"
    by (cases k)
  show ?case
  proof (cases "key_attempts e pl key key_index backoff [1..<n + 1] (le, summary, w)")
    case (Inl finished)
    with key_attempts_log [where e = e and pl = pl and key = key and key_index = key_index
        and backoff = backoff and atts = "[1..<n + 1]" and le = le and summary = summary
        and w = w]
    show ?thesis
      unfolding k by (auto split: prod.splits)
  next
    case (Inr st)
    obtain le1 s1 w1 where st: "st = (le1, s1, w1)"
      by (cases st)
    from Inr st key_attempts_log [where e = e and pl = pl and key = key
        and key_index = key_index and backoff = backoff and atts = "[1..<n + 1]" and le = le
        and summary = summary and w = w]
    obtain more1 where m1: "http_log w1 = http_log w @ more1"
      and c1: "response_cache w1 = response_cache w"
      by auto
    from Cons.IH [where le = le1 and summary = s1 and w = w1] m1 c1 Inr st show ?thesis
      unfolding k by (auto split: sum.splits prod.splits)
  qed
qed

lemma first_attempt_logged:
  "(case key_attempts e pl key key_index backoff (attempt # rest) (le, summary, w) of
      Inl (r, w') \<Rightarrow>
        \<exists>more. http_log w' = http_log w @ OpenRouterPost key
           (header_of e (u ''INTELLIHUB_REFERER'')) (header_of e (u ''INTELLIHUB_TITLE'')) pl # more
    | Inr (le', summary', w') \<Rightarrow>
        \<exists>more. http_log w' = http_log w @ OpenRouterPost key
           (header_of e (u ''INTELLIHUB_REFERER'')) (header_of e (u ''INTELLIHUB_TITLE'')) pl # more)"
proof -
  let ?w1 = "w\<lparr>metrics := (metrics w)\<lparr>attempts := attempts (metrics w) + 1\<rparr>\<rparr>"
  let ?req = "OpenRouterPost key (header_of e (u ''INTELLIHUB_REFERER''))
                     (header_of e (u ''INTELLIHUB_TITLE'')) pl"
  obtain dt rep where h: "http e (http_log ?w1) ?req = (dt, rep)"
    by (cases "http e (http_log ?w1) ?req")
  let ?w2 = "?w1\<lparr>http_log := http_log ?w1 @ [?req], clock := clock ?w1 + dt\<rparr>"
  show ?thesis
  proof (cases rep)
    case (NetworkError msg)
    let ?line = "network_error_line key_index attempt msg"
    from key_attempts_log [where e = e and pl = pl and key = key and key_index = key_index
        and backoff = backoff and atts = rest and le = "Some ?line"
        and summary = "summary @ [?line]" and w = "sleep (real backoff) ?w2"]
    show ?thesis
      using h NetworkError
      by (auto simp: send_def Let_def sleep_def split: sum.splits prod.splits)
  next
    case (Reply resp)
    let ?snippet = "replace_char nl 32 (take 180 (resp_text resp))"
    let ?line = "attempt_line key_index attempt (status_code resp) ?snippet"
    let ?w3 = "?w2\<lparr>metrics := (metrics ?w2)
                 \<lparr>last_latency_ms := elapsed_ms e (clock ?w1) (clock ?w2)\<rparr>\<rparr>"
    from key_attempts_log [where e = e and pl = pl and key = key and key_index = key_index
        and backoff = backoff and atts = rest and le = le and summary = "summary @ [?line]"
        and w = "sleep (real (backoff * 2 ^ (attempt - 1))) ?w3"]
    show ?thesis
      using h Reply
      by (auto simp: send_def Let_def sleep_def split: sum.splits prod.splits option.splits)
  qed
qed

lemma request_with_rotation_first_request:
  assumes "api_keys \<noteq> []"
    and "request_with_rotation e pl api_keys 1 backoff w = (result, w')"
  shows "\<exists>more. http_log w' = http_log w @ OpenRouterPost (hd api_keys)
           (header_of e (u ''INTELLIHUB_REFERER'')) (header_of e (u ''INTELLIHUB_TITLE'')) pl # more"
proof -
  from assms(1) obtain k ks where keys: "api_keys = k # ks"
    by (cases api_keys) auto
  have en: "enumerate_from0 (k # ks) = (0, k) # zip [1..<Suc (length ks)] ks"
    by (simp add: enumerate_from0_def upt_conv_Cons del: upt_Suc)
  let ?req = "OpenRouterPost k (header_of e (u ''INTELLIHUB_REFERER''))
                     (header_of e (u ''INTELLIHUB_TITLE'')) pl"
  show ?thesis
  proof (cases "key_attempts e pl k 0 backoff [1] (None, [], w)")
    case (Inl finished)
    with first_attempt_logged [where e = e and pl = pl and key = k and key_index = 0
        and backoff = backoff and attempt = 1 and rest = "[]" and le = None
        and summary = "[]" and w = w] assms(2)
    show ?thesis
      unfolding keys by (auto simp: request_with_rotation_def en split: prod.splits)
  next
    case (Inr st)
    obtain le1 s1 w1 where st: "st = (le1, s1, w1)"
      by (cases st)
    from Inr st first_attempt_logged [where e = e and pl = pl and key = k and key_index = 0
        and backoff = backoff and attempt = 1 and rest = "[]" and le = None
        and summary = "[]" and w = w]
    obtain more1 where m1: "http_log w1 = http_log w @ ?req # more1"
      by auto
    from keys_loop_log [where e = e and pl = pl and n = 1 and backoff = backoff
        and ks = "zip [1..<Suc (length ks)] ks" and le = le1 and summary = s1 and w = w1]
      m1 Inr st
      assms(2)
    show ?thesis
      unfolding keys
      by (auto simp: request_with_rotation_def en Let_def split: sum.splits prod.splits if_splits)
  qed
qed

lemma request_with_rotation_frame:
  assumes "request_with_rotation e pl api_keys n backoff w = (result, w')"
  shows "response_cache w' = response_cache w \<and> (\<exists>more. http_log w' = http_log w @ more)"
proof (cases "api_keys = []")
  case True
  with assms show ?thesis
    by (simp add: request_with_rotation_def)
next
  case False
  show ?thesis
  proof (cases "keys_loop e pl n backoff (enumerate_from0 api_keys) (None, [], w)")
    case (Inl finished)
    with keys_loop_log [where e = e and pl = pl and n = n and backoff = backoff
        and ks = "enumerate_from0 api_keys" and le = None and summary = "[]" and w = w]
      assms False
    show ?thesis
      by (auto simp: request_with_rotation_def split: prod.splits)
  next
    case (Inr st)
    obtain le1 s1 w1 where st: "st = (le1, s1, w1)"
      by (cases st)
    from Inr st keys_loop_log [where e = e and pl = pl and n = n and backoff = backoff
        and ks = "enumerate_from0 api_keys" and le = None and summary = "[]" and w = w]
      assms False
    show ?thesis
      by (auto simp: request_with_rotation_def Let_def split: if_splits)
  qed
qed

lemma models_loop_frame:
  "models_loop e n pl api_keys ms (le, rlo, w) = (result, w') \<Longrightarrow>
     response_cache w' = response_cache w \<and> (\<exists>more. http_log w' = http_log w @ more)"
proof (induction ms arbitrary: le rlo w)
  case Nil
  then show ?case
    by (auto split: if_splits)
next
  case (Cons m rest)
  obtain r1 w1 where first: "request_with_rotation e (pl\<lparr>p_model := m\<rparr>) api_keys 1 5 w = (r1, w1)"
    by (cases "request_with_rotation e (pl\<lparr>p_model := m\<rparr>) api_keys 1 5 w")
  from request_with_rotation_frame [OF first]
  obtain more1 where f1: "response_cache w1 = response_cache w" "http_log w1 = http_log w @ more1"
    by blast
  show ?case
  proof (cases r1)
    case (Inr data)
    with Cons.prems first f1 show ?thesis
      by simp
  next
    case (Inl err)
    show ?thesis
    proof (cases "is_RuntimeError err \<and> str_in (u ''429'') (error_text err) \<and> 1 < n")
      case True
      with Cons.prems first Inl have "models_loop e n pl api_keys rest
          (Some (error_text err), rlo \<and> str_in (u ''429'') (error_text err), w1) = (result, w')"
        by simp
      from Cons.IH [OF this] f1 show ?thesis
        by auto
    next
      case False
      with Cons.prems first Inl f1 show ?thesis
        by (auto split: if_splits)
    qed
  qed
qed

lemma coordinator_frame:
  "try_models_with_fallback e models pl api_keys w = (result, w') \<Longrightarrow>
     response_cache w' = response_cache w"
  unfolding try_models_with_fallback_def by (drule models_loop_frame) simp

lemma coordinator_first_request:
  assumes "api_keys \<noteq> []" and "models \<noteq> []"
    and "try_models_with_fallback e models pl api_keys w = (result, w')"
  shows "\<exists>more. http_log w' = http_log w @ OpenRouterPost (hd api_keys)
           (header_of e (u ''INTELLIHUB_REFERER'')) (header_of e (u ''INTELLIHUB_TITLE''))
           (pl\<lparr>p_model := hd models\<rparr>) # more"
proof -
  from assms(2) obtain m rest where ms: "models = m # rest"
    by (cases models) auto
  obtain r1 w1 where first: "request_with_rotation e (pl\<lparr>p_model := m\<rparr>) api_keys 1 5 w = (r1, w1)"
    by (cases "request_with_rotation e (pl\<lparr>p_model := m\<rparr>) api_keys 1 5 w")
  from request_with_rotation_first_request [OF assms(1) first]
  obtain more1 where f1: "http_log w1 = http_log w @ OpenRouterPost (hd api_keys)
           (header_of e (u ''INTELLIHUB_REFERER'')) (header_of e (u ''INTELLIHUB_TITLE''))
           (pl\<lparr>p_model := m\<rparr>) # more1"
    by blast
  show ?thesis
  proof (cases r1)
    case (Inr data)
    with assms(3) first f1 ms show ?thesis
      by (simp add: try_models_with_fallback_def)
  next
    case (Inl err)
    show ?thesis
    proof (cases "is_RuntimeError err \<and> str_in (u ''429'') (error_text err) \<and> 1 < length models")
      case True
      with assms(3) first Inl ms have "models_loop e (length models) pl api_keys rest
          (Some (error_text err), str_in (u ''429'') (error_text err), w1) = (result, w')"
        by (simp add: try_models_with_fallback_def)
      from models_loop_frame [OF this] f1 ms show ?thesis
        by auto
    next
      case False
      with assms(3) first Inl f1 ms show ?thesis
        by (auto simp: try_models_with_fallback_def split: if_splits)
    qed
  qed
qed

lemma no_keys_message_without_429:
  "\<not> str_in (u ''429'')
       (u ''No API keys found. Set OPENROUTER_API_KEYS or OPENROUTER_API_KEY_1.'')"
  by (simp add: str_in_def sublist_code u_def)

lemma coordinator_rate_limited_has_keys:
  assumes "try_models_with_fallback e models pl api_keys w = (Inl (RateLimitExhaustedError msg), w')"
  shows "api_keys \<noteq> []"
proof
  assume none: "api_keys = []"
  show False
  proof (cases models)
    case Nil
    with assms show False
      by (simp add: try_models_with_fallback_def)
  next
    case (Cons m rest)
    with assms none no_keys_message_without_429 show False
      by (simp add: try_models_with_fallback_def request_with_rotation_def)
  qed
qed

section \<open>The guidance of \<open>generate_response\<close>\<close>

lemma lookup_miss:
  "fst (get_cached_response k w) = None \<Longrightarrow>
     \<exists>w1. get_cached_response k w = (None, w1) \<and> response_cache w1 k = None
          \<and> http_log w1 = http_log w \<and> metrics w1 = metrics w \<and> clock w1 = clock w"
  by (auto simp: get_cached_response_def split: option.splits if_splits)

lemma miss_leaves_no_entry:
  "get_cached_response k w = (None, w1) \<Longrightarrow> response_cache w1 k = None"
  by (auto simp: get_cached_response_def split: option.splits if_splits)

lemma no_entry_misses:
  "response_cache w k = None \<Longrightarrow> get_cached_response k w = (None, w)"
  by (simp add: get_cached_response_def)

lemma generate_response_rate_limited:
  assumes rl: "\<And>history req. rate_limited_reply (snd (http e history req))"
    and keys: "collect_api_keys e \<noteq> []"
    and key: "generate_cache_key e prompt image_url (classify_task (lower e) prompt image_url)
                = Inr cache_key"
    and miss: "fst (get_cached_response cache_key w) = None"
    and research: "fst (research_path e prompt image_url temperature
                 (classify_task (lower e) prompt image_url) cache_key
                 (snd (get_cached_response cache_key w))) = None"
  shows "\<exists>w'. generate_response e prompt image_url temperature w
            = (Inr (rate_limited_response
                      (models_for e (classify_task (lower e) prompt image_url))
                      (classify_task (lower e) prompt image_url)), w')"
proof -
  let ?task = "classify_task (lower e) prompt image_url"
  obtain w1 where w1: "get_cached_response cache_key w = (None, w1)"
    using miss by (cases "get_cached_response cache_key w") simp
  obtain w2 where w2: "research_path e prompt image_url temperature ?task cache_key w1 = (None, w2)"
    using research w1
    by (cases "research_path e prompt image_url temperature ?task cache_key w1") simp
  from general_path_rate_limited [OF rl keys, of prompt image_url temperature ?task cache_key w2]
  obtain w' where "general_path e prompt image_url temperature ?task cache_key w2
      = (Inr (rate_limited_response (models_for e ?task) ?task), w')"
    by blast
  with key w1 w2 show ?thesis
    by (simp add: generate_response_def Let_def)
qed

lemma env_429_rate_limited: "rate_limited_reply (snd (http env_429 history req))"
  by (simp add: env_429_def plain_reply_def rate_limited_reply_def)

lemma env_429_keys: "collect_api_keys env_429 = [u ''k1'']"
  by (simp add: router_defs env_429_def eval_simps u_def)

lemma env_ok_keys: "collect_api_keys env_ok = [u ''k1'']"
  by (simp add: router_defs env_ok_def eval_simps u_def)

lemma hi_is_general: "classify_task ascii_lower (u ''hi'') None = u ''general''"
  by (simp add: router_defs u_def)

lemma world0_miss: "get_cached_response k world0 = (None, world0)"
  by (simp add: get_cached_response_def world0_def)

lemma env_429_lower: "lower env_429 = ascii_lower"
  by (simp add: env_429_def)

lemma env_429_no_research_key: "getenv env_429 (u ''PERPLEXITY_API_KEY'') = None"
  by (simp add: getenv_def env_429_def u_def)

lemma env_429_no_research: "research_path env_429 prompt image_url temperature task k w = (None, w)"
  by (simp add: research_path_def env_429_no_research_key)

lemma env_429_task: "classify_task (lower env_429) (u ''hi'') None = u ''general''"
  by (simp add: env_429_lower hi_is_general)

lemma env_429_key:
  "generate_cache_key env_429 (u ''hi'') None (u ''general'') = Inr (u ''hi||general'')"
  by (simp add: router_defs env_429_def u_def)

lemma env_ok_key:
  "generate_cache_key env_ok (u ''hi'') None (u ''general'') = Inr (u ''hi||general'')"
  by (simp add: router_defs env_ok_def u_def)

lemma coordinator_429_run:
  "try_models_with_fallback env_429 (models_for env_429 (u ''general''))
     \<lparr>p_model = hd (models_for env_429 (u ''general'')),
      p_messages = build_messages (u ''hi'') None, p_temperature = 0.7\<rparr> [u ''k1''] world0
   = (Inl (RateLimitExhaustedError (u ''All models/keys hit external 429 rate limits.'')),
      world_429)"
  by (simp add: router_defs fixture_defs world_429_def eval_simps u_def nl_def)

lemma general_path_log:
  assumes keys: "collect_api_keys e \<noteq> []"
    and run: "try_models_with_fallback e (models_for e task)
                \<lparr>p_model = hd (models_for e task), p_messages = build_messages prompt image_url,
                 p_temperature = temperature\<rparr> (collect_api_keys e) w = (result, w')"
    and outcome: "(\<exists>raw_json. result = Inr raw_json)
                  \<or> (\<exists>msg. result = Inl (RateLimitExhaustedError msg))"
  shows "http_log (snd (general_path e prompt image_url temperature task cache_key w))
           = http_log w'"
  using assms
  by (auto simp: general_path_def Let_def finish_def cache_response_def split: sum.splits)


text \<open>
  C1.  Let every reply of the upstream be rate-limited (status 429, or a body that
  mentions a rate limit), and let there be at least one key.  Then the rotator, asked for
  at least one try per key, raises \<open>RateLimitExhaustedError\<close>; the coordinator, on any
  non-empty list of models, raises \<open>RateLimitExhaustedError\<close>; and \<open>generate_response\<close>,
  when the cache key of the request can be computed (the prompt can be encoded), the
  cache has no fresh entry under it and the research dispatch does not answer, returns a
  response whose text is the guidance message instead of raising.
\<close>

theorem rate_limit_exhaustion:
  assumes rl: "\<And>history req. rate_limited_reply (snd (http e history req))"
    and keys: "api_keys \<noteq> []"
  shows "(0 < max_retries_per_key \<longrightarrow>
           (\<exists>msg w'. request_with_rotation e pl api_keys max_retries_per_key backoff_seconds w
                       = (Inl (RateLimitExhaustedError msg), w')))
       \<and> (models \<noteq> [] \<longrightarrow>
           (\<exists>msg w'. try_models_with_fallback e models pl api_keys w
                       = (Inl (RateLimitExhaustedError msg), w')))
       \<and> (collect_api_keys e = api_keys
          \<and> generate_cache_key e prompt image_url (classify_task (lower e) prompt image_url)
              = Inr cache_key
          \<and> fst (get_cached_response cache_key w) = None
          \<and> fst (research_path e prompt image_url temperature
                 (classify_task (lower e) prompt image_url) cache_key
                 (snd (get_cached_response cache_key w))) = None
          \<longrightarrow>
           (\<exists>r w'. generate_response e prompt image_url temperature w = (Inr r, w')
                    \<and> assistant_text r = guidance))"
proof (intro conjI impI)
  assume "0 < max_retries_per_key"
  with request_with_rotation_rate_limited [OF rl keys]
  show "\<exists>msg w'. request_with_rotation e pl api_keys max_retries_per_key backoff_seconds w
                       = (Inl (RateLimitExhaustedError msg), w')"
    by blast
next
  assume "models \<noteq> []"
  with models_loop_rate_limited [OF rl keys, of models None "length models" pl w]
  show "\<exists>msg w'. try_models_with_fallback e models pl api_keys w
                       = (Inl (RateLimitExhaustedError msg), w')"
    by (auto simp: try_models_with_fallback_def)
next
  assume a: "collect_api_keys e = api_keys
          \<and> generate_cache_key e prompt image_url (classify_task (lower e) prompt image_url)
              = Inr cache_key
          \<and> fst (get_cached_response cache_key w) = None
          \<and> fst (research_path e prompt image_url temperature
                 (classify_task (lower e) prompt image_url) cache_key
                 (snd (get_cached_response cache_key w))) = None"
  with keys have k: "collect_api_keys e \<noteq> []"
    by simp
  from a generate_response_rate_limited [OF rl k, of prompt image_url cache_key w temperature]
  show "\<exists>r w'. generate_response e prompt image_url temperature w = (Inr r, w')
                    \<and> assistant_text r = guidance"
    by (auto simp: rate_limited_response_def)
qed

theorem rate_limit_exhaustion_witness:
  "(\<exists>msg w'. request_with_rotation env_429
                 \<lparr>p_model = u ''a'', p_messages = build_messages (u ''hi'') None,
                  p_temperature = 0.7\<rparr> [u ''k1''] 2 5 world0
               = (Inl (RateLimitExhaustedError msg), w'))
   \<and> (\<exists>msg w'. try_models_with_fallback env_429 [u ''a'', u ''b'']
                 \<lparr>p_model = u ''a'', p_messages = build_messages (u ''hi'') None,
                  p_temperature = 0.7\<rparr> [u ''k1''] world0
               = (Inl (RateLimitExhaustedError msg), w'))
   \<and> (\<exists>r w'. generate_response env_429 (u ''hi'') None 0.7 world0 = (Inr r, w')
               \<and> assistant_text r = guidance)"
  using rate_limit_exhaustion [where e = env_429 and api_keys = "[u ''k1'']"
      and max_retries_per_key = 2 and models = "[u ''a'', u ''b'']" and w = world0
      and prompt = "u ''hi''" and image_url = None and temperature = "0.7"
      and backoff_seconds = 5 and cache_key = "u ''hi||general''"
      and pl = "\<lparr>p_model = u ''a'', p_messages = build_messages (u ''hi'') None,
                  p_temperature = 0.7\<rparr>", OF env_429_rate_limited]
  by (simp add: world0_miss env_429_no_research env_429_keys env_429_task env_429_key)

section \<open>The guidance response and the cache\<close>

text \<open>
  C3, as amended.  Let a call of \<open>generate_response\<close> compute the cache key, miss the
  cache, get nothing from the research dispatch, and let the coordinator raise
  \<open>RateLimitExhaustedError\<close>, leaving the state \<open>w3\<close>.  Then the call returns, in \<open>w3\<close>, the
  synthesized response with the guidance text and the raw payload
  \<open>{"error": "rate_limited"}\<close>, and the coordinator has left the cache as it found it.
  When the research dispatch is not taken, the cache of \<open>w3\<close> has no entry under the key
  of the request, so the same request made again at any later time \<open>now\<close> and at any
  temperature \<open>t2\<close> is not served from the cache: it runs the general path again, there
  is a key, and the coordinator posts a new request for the first model to the upstream.
  When the coordinator then returns an answer or raises the rate-limit error again, the
  log of requests after the repeated call is the one the coordinator left, with the new
  request in it.
\<close>

theorem rate_limit_guidance_not_cached:
  assumes task: "task = classify_task (lower e) prompt image_url"
    and models: "models = models_for e task"
    and api_keys: "api_keys = collect_api_keys e"
    and key: "generate_cache_key e prompt image_url task = Inr cache_key"
    and miss: "get_cached_response cache_key w = (None, w1)"
    and research: "research_path e prompt image_url temperature task cache_key w1 = (None, w2)"
    and limited: "try_models_with_fallback e models
                    \<lparr>p_model = hd models, p_messages = build_messages prompt image_url,
                     p_temperature = temperature\<rparr> api_keys w2
                  = (Inl (RateLimitExhaustedError msg), w3)"
  shows "generate_response e prompt image_url temperature w
           = (Inr (rate_limited_response models task), w3)
       \<and> assistant_text (rate_limited_response models task) = guidance
       \<and> raw (rate_limited_response models task) = JDict [(u ''error'', JStr (u ''rate_limited''))]
       \<and> response_cache w3 = response_cache w2
       \<and> (\<not> (task = u ''research'' \<and> truthy_opt (getenv e (u ''PERPLEXITY_API_KEY''))) \<longrightarrow>
            response_cache w3 cache_key = None
            \<and> generate_response e prompt image_url t2 (w3\<lparr>clock := now\<rparr>)
                = general_path e prompt image_url t2 task cache_key (w3\<lparr>clock := now\<rparr>)
            \<and> api_keys \<noteq> []
            \<and> (\<exists>result w4 more.
                  try_models_with_fallback e models
                    \<lparr>p_model = hd models, p_messages = build_messages prompt image_url,
                     p_temperature = t2\<rparr> api_keys (w3\<lparr>clock := now\<rparr>) = (result, w4)
                  \<and> http_log w4 = http_log w3 @
                      OpenRouterPost (hd api_keys) (header_of e (u ''INTELLIHUB_REFERER''))
                        (header_of e (u ''INTELLIHUB_TITLE''))
                        \<lparr>p_model = hd models, p_messages = build_messages prompt image_url,
                         p_temperature = t2\<rparr> # more
                  \<and> ((\<exists>raw_json. result = Inr raw_json)
                        \<or> (\<exists>msg2. result = Inl (RateLimitExhaustedError msg2))
                      \<longrightarrow> http_log (snd (generate_response e prompt image_url t2
                                          (w3\<lparr>clock := now\<rparr>))) = http_log w4)))"
proof -
  have keys: "api_keys \<noteq> []"
    using limited by (rule coordinator_rate_limited_has_keys)
  have ms: "models \<noteq> []"
    using models models_for_nonempty by simp
  have first: "generate_response e prompt image_url temperature w
           = (Inr (rate_limited_response models task), w3)"
    using task models api_keys key miss research limited keys
    by (simp add: generate_response_def general_path_def Let_def)
  have kept: "response_cache w3 = response_cache w2"
    using limited by (rule coordinator_frame)
  have again: "response_cache w3 cache_key = None
            \<and> generate_response e prompt image_url t2 (w3\<lparr>clock := now\<rparr>)
                = general_path e prompt image_url t2 task cache_key (w3\<lparr>clock := now\<rparr>)
            \<and> api_keys \<noteq> []
            \<and> (\<exists>result w4 more.
                  try_models_with_fallback e models
                    \<lparr>p_model = hd models, p_messages = build_messages prompt image_url,
                     p_temperature = t2\<rparr> api_keys (w3\<lparr>clock := now\<rparr>) = (result, w4)
                  \<and> http_log w4 = http_log w3 @
                      OpenRouterPost (hd api_keys) (header_of e (u ''INTELLIHUB_REFERER''))
                        (header_of e (u ''INTELLIHUB_TITLE''))
                        \<lparr>p_model = hd models, p_messages = build_messages prompt image_url,
                         p_temperature = t2\<rparr> # more
                  \<and> ((\<exists>raw_json. result = Inr raw_json)
                        \<or> (\<exists>msg2. result = Inl (RateLimitExhaustedError msg2))
                      \<longrightarrow> http_log (snd (generate_response e prompt image_url t2
                                          (w3\<lparr>clock := now\<rparr>))) = http_log w4))"
    if no_research: "\<not> (task = u ''research'' \<and> truthy_opt (getenv e (u ''PERPLEXITY_API_KEY'')))"
  proof -
    from no_research research have "w2 = w1"
      by (auto simp: research_path_def)
    with kept miss_leaves_no_entry [OF miss] have none: "response_cache w3 cache_key = None"
      by simp
    then have lookup: "get_cached_response cache_key (w3\<lparr>clock := now\<rparr>) = (None, w3\<lparr>clock := now\<rparr>)"
      by (intro no_entry_misses) simp
    have path: "research_path e prompt image_url t2 task cache_key (w3\<lparr>clock := now\<rparr>)
                  = (None, w3\<lparr>clock := now\<rparr>)"
      using no_research by (auto simp: research_path_def)
    have second: "generate_response e prompt image_url t2 (w3\<lparr>clock := now\<rparr>)
        = general_path e prompt image_url t2 task cache_key (w3\<lparr>clock := now\<rparr>)"
      using task key lookup path by (simp add: generate_response_def Let_def)
    obtain result w4 where run: "try_models_with_fallback e models
        \<lparr>p_model = hd models, p_messages = build_messages prompt image_url,
         p_temperature = t2\<rparr> api_keys (w3\<lparr>clock := now\<rparr>) = (result, w4)"
      by (cases "try_models_with_fallback e models
        \<lparr>p_model = hd models, p_messages = build_messages prompt image_url,
         p_temperature = t2\<rparr> api_keys (w3\<lparr>clock := now\<rparr>)")
    from coordinator_first_request [OF keys ms run]
    obtain more where "http_log w4 = http_log w3 @
        OpenRouterPost (hd api_keys) (header_of e (u ''INTELLIHUB_REFERER''))
          (header_of e (u ''INTELLIHUB_TITLE''))
          \<lparr>p_model = hd models, p_messages = build_messages prompt image_url,
           p_temperature = t2\<rparr> # more"
      by auto
    then have requests: "http_log w4 = http_log w3 @
        OpenRouterPost (hd api_keys) (header_of e (u ''INTELLIHUB_REFERER''))
          (header_of e (u ''INTELLIHUB_TITLE''))
          \<lparr>p_model = hd models, p_messages = build_messages prompt image_url,
           p_temperature = t2\<rparr> # more" .
    have final: "http_log (snd (generate_response e prompt image_url t2
                                  (w3\<lparr>clock := now\<rparr>))) = http_log w4"
      if "(\<exists>raw_json. result = Inr raw_json)
            \<or> (\<exists>msg2. result = Inl (RateLimitExhaustedError msg2))"
      unfolding second
      using keys run that unfolding models api_keys
      by (intro general_path_log) simp_all
    from none second keys run requests final show ?thesis
      by blast
  qed
  have guidance_text: "assistant_text (rate_limited_response models task) = guidance"
    by (simp add: rate_limited_response_def)
  have marker: "raw (rate_limited_response models task)
                  = JDict [(u ''error'', JStr (u ''rate_limited''))]"
    by (simp add: rate_limited_response_def)
  from first guidance_text marker kept again show ?thesis
    by blast
qed
theorem rate_limit_guidance_not_cached_witness:
  "generate_response env_429 (u ''hi'') None 0.7 world0
     = (Inr (rate_limited_response (models_for env_429 (u ''general'')) (u ''general'')),
        world_429)
   \<and> assistant_text (rate_limited_response (models_for env_429 (u ''general'')) (u ''general''))
       = guidance
   \<and> raw (rate_limited_response (models_for env_429 (u ''general'')) (u ''general''))
       = JDict [(u ''error'', JStr (u ''rate_limited''))]
   \<and> response_cache world_429 = response_cache world0
   \<and> response_cache world_429 (u ''hi||general'') = None
   \<and> generate_response env_429 (u ''hi'') None 0.2 (world_429\<lparr>clock := 100\<rparr>)
       = general_path env_429 (u ''hi'') None 0.2 (u ''general'') (u ''hi||general'')
           (world_429\<lparr>clock := 100\<rparr>)
   \<and> [u ''k1''] \<noteq> ([] :: ustring list)
   \<and> (\<exists>result w4 more.
         try_models_with_fallback env_429 (models_for env_429 (u ''general''))
           \<lparr>p_model = hd (models_for env_429 (u ''general'')),
            p_messages = build_messages (u ''hi'') None, p_temperature = 0.2\<rparr>
           [u ''k1''] (world_429\<lparr>clock := 100\<rparr>) = (result, w4)
         \<and> http_log w4 = http_log world_429 @
             OpenRouterPost (hd [u ''k1'']) (header_of env_429 (u ''INTELLIHUB_REFERER''))
               (header_of env_429 (u ''INTELLIHUB_TITLE''))
               \<lparr>p_model = hd (models_for env_429 (u ''general'')),
                p_messages = build_messages (u ''hi'') None, p_temperature = 0.2\<rparr> # more)
   \<and> (\<exists>more.
         http_log (snd (generate_response env_429 (u ''hi'') None 0.2
                          (world_429\<lparr>clock := 100\<rparr>)))
           = http_log world_429 @
             OpenRouterPost (hd [u ''k1'']) (header_of env_429 (u ''INTELLIHUB_REFERER''))
               (header_of env_429 (u ''INTELLIHUB_TITLE''))
               \<lparr>p_model = hd (models_for env_429 (u ''general'')),
                p_messages = build_messages (u ''hi'') None, p_temperature = 0.2\<rparr> # more)"
proof -
  have no_research: "\<not> (u ''general'' = u ''research''
      \<and> truthy_opt (getenv env_429 (u ''PERPLEXITY_API_KEY'')))"
    by (simp add: env_429_no_research_key)
  note fact = rate_limit_guidance_not_cached [where e = env_429 and prompt = "u ''hi''"
      and image_url = None and temperature = "0.7" and w = world0 and ?t2.0 = "0.2"
      and now = 100 and task = "u ''general''" and api_keys = "[u ''k1'']"
      and cache_key = "u ''hi||general''",
      OF env_429_task [symmetric] refl env_429_keys [symmetric] env_429_key world0_miss
        env_429_no_research coordinator_429_run]
  from models_loop_rate_limited [OF env_429_rate_limited, where api_keys = "[u ''k1'']"
      and ms = "models_for env_429 (u ''general'')" and le = None
      and n = "length (models_for env_429 (u ''general''))"
      and w = "world_429\<lparr>clock := 100\<rparr>"
      and pl = "\<lparr>p_model = hd (models_for env_429 (u ''general'')),
            p_messages = build_messages (u ''hi'') None, p_temperature = 0.2\<rparr>"]
  obtain msg2 w5 where again:
    "try_models_with_fallback env_429 (models_for env_429 (u ''general''))
           \<lparr>p_model = hd (models_for env_429 (u ''general'')),
            p_messages = build_messages (u ''hi'') None, p_temperature = 0.2\<rparr>
           [u ''k1''] (world_429\<lparr>clock := 100\<rparr>) = (Inl (RateLimitExhaustedError msg2), w5)"
    using models_for_nonempty [of env_429 "u ''general''"]
    by (auto simp: try_models_with_fallback_def)
  from fact no_research have rest:
    "generate_response env_429 (u ''hi'') None 0.7 world0
       = (Inr (rate_limited_response (models_for env_429 (u ''general'')) (u ''general'')),
          world_429)
     \<and> assistant_text (rate_limited_response (models_for env_429 (u ''general''))
           (u ''general'')) = guidance
     \<and> raw (rate_limited_response (models_for env_429 (u ''general'')) (u ''general''))
         = JDict [(u ''error'', JStr (u ''rate_limited''))]
     \<and> response_cache world_429 = response_cache world0
     \<and> response_cache world_429 (u ''hi||general'') = None
     \<and> generate_response env_429 (u ''hi'') None 0.2 (world_429\<lparr>clock := 100\<rparr>)
         = general_path env_429 (u ''hi'') None 0.2 (u ''general'') (u ''hi||general'')
             (world_429\<lparr>clock := 100\<rparr>)
     \<and> [u ''k1''] \<noteq> ([] :: ustring list)
     \<and> (\<exists>result w4 more.
           try_models_with_fallback env_429 (models_for env_429 (u ''general''))
             \<lparr>p_model = hd (models_for env_429 (u ''general'')),
              p_messages = build_messages (u ''hi'') None, p_temperature = 0.2\<rparr>
             [u ''k1''] (world_429\<lparr>clock := 100\<rparr>) = (result, w4)
           \<and> http_log w4 = http_log world_429 @
               OpenRouterPost (hd [u ''k1'']) (header_of env_429 (u ''INTELLIHUB_REFERER''))
                 (header_of env_429 (u ''INTELLIHUB_TITLE''))
                 \<lparr>p_model = hd (models_for env_429 (u ''general'')),
                  p_messages = build_messages (u ''hi'') None, p_temperature = 0.2\<rparr> # more)"
    by blast
  from fact no_research obtain result w4 more where
    run: "try_models_with_fallback env_429 (models_for env_429 (u ''general''))
             \<lparr>p_model = hd (models_for env_429 (u ''general'')),
              p_messages = build_messages (u ''hi'') None, p_temperature = 0.2\<rparr>
             [u ''k1''] (world_429\<lparr>clock := 100\<rparr>) = (result, w4)"
    and requests: "http_log w4 = http_log world_429 @
               OpenRouterPost (hd [u ''k1'']) (header_of env_429 (u ''INTELLIHUB_REFERER''))
                 (header_of env_429 (u ''INTELLIHUB_TITLE''))
                 \<lparr>p_model = hd (models_for env_429 (u ''general'')),
                  p_messages = build_messages (u ''hi'') None, p_temperature = 0.2\<rparr> # more"
    and final: "(\<exists>raw_json. result = Inr raw_json)
                  \<or> (\<exists>msg2. result = Inl (RateLimitExhaustedError msg2))
                \<longrightarrow> http_log (snd (generate_response env_429 (u ''hi'') None 0.2
                                    (world_429\<lparr>clock := 100\<rparr>))) = http_log w4"
    by blast
  from run again have "result = Inl (RateLimitExhaustedError msg2)"
    by simp
  with final have "http_log (snd (generate_response env_429 (u ''hi'') None 0.2
                                    (world_429\<lparr>clock := 100\<rparr>))) = http_log w4"
    by blast
  also note requests
  finally have "\<exists>more.
         http_log (snd (generate_response env_429 (u ''hi'') None 0.2
                          (world_429\<lparr>clock := 100\<rparr>)))
           = http_log world_429 @
             OpenRouterPost (hd [u ''k1'']) (header_of env_429 (u ''INTELLIHUB_REFERER''))
               (header_of env_429 (u ''INTELLIHUB_TITLE''))
               \<lparr>p_model = hd (models_for env_429 (u ''general'')),
                p_messages = build_messages (u ''hi'') None, p_temperature = 0.2\<rparr> # more"
    by (rule exI)
  with rest show ?thesis
    by blast
qed

text \<open>
  C3 as stated fails: with one key and an upstream that always answers 429, a call on
  a fresh process returns the guidance response and leaves the cache without an entry
  under the key of the request.
\<close>

theorem guidance_not_cached:
  "fst (generate_response env_429 (u ''hi'') None 0.7 world0)
     = Inr (rate_limited_response (models_for env_429 (u ''general'')) (u ''general''))
   \<and> generate_cache_key env_429 (u ''hi'') None (u ''general'') = Inr (u ''hi||general'')
   \<and> response_cache (snd (generate_response env_429 (u ''hi'') None 0.7 world0))
        (u ''hi||general'') = None"
  unfolding rate_limited_run env_429_key by (simp add: world0_def)

section \<open>Repeated requests\<close>

lemma fresh_call_caches:
  assumes "generate_response e prompt image_url temperature w = (Inr r, w1)"
    and "generate_cache_key e prompt image_url (classify_task (lower e) prompt image_url)
           = Inr cache_key"
    and "fst (get_cached_response cache_key w) = None"
    and "r \<noteq> rate_limited_response
               (models_for e (classify_task (lower e) prompt image_url))
               (classify_task (lower e) prompt image_url)"
  shows "response_cache w1 cache_key = Some (r, clock w1)"
proof -
  let ?task = "classify_task (lower e) prompt image_url"
  obtain wa where wa: "get_cached_response cache_key w = (None, wa)"
    using assms(3) by (cases "get_cached_response cache_key w") simp
  show ?thesis
  proof (cases "research_path e prompt image_url temperature ?task cache_key wa")
    case (Pair found wb)
    show ?thesis
    proof (cases found)
      case None
      with Pair wa assms(1,2)
      have "general_path e prompt image_url temperature ?task cache_key wb = (Inr r, w1)"
        by (simp add: generate_response_def Let_def)
      from general_path_caches [OF this assms(4)] show ?thesis .
    next
      case (Some research_result)
      with Pair wa assms(1,2) have "r = research_result" "w1 = wb"
        by (simp_all add: generate_response_def Let_def)
      with Pair Some show ?thesis
        by (auto simp: research_path_def cache_response_def split: if_splits prod.splits sum.splits)
    qed
  qed
qed

lemma repeated_call_hits:
  assumes first: "generate_response e prompt image_url t1 w = (Inr r, w1)"
    and miss: "\<forall>cache_key. generate_cache_key e prompt image_url
                   (classify_task (lower e) prompt image_url) = Inr cache_key
                 \<longrightarrow> fst (get_cached_response cache_key w) = None"
    and fresh: "r \<noteq> rate_limited_response
               (models_for e (classify_task (lower e) prompt image_url))
               (classify_task (lower e) prompt image_url)"
    and young: "now - clock w1 < CACHE_TTL"
  shows "generate_response e prompt image_url t2 (w1\<lparr>clock := now\<rparr>)
           = (Inr r, w1\<lparr>clock := now\<rparr>)"
proof -
  from returned_has_key [OF first] obtain cache_key where
    key: "generate_cache_key e prompt image_url (classify_task (lower e) prompt image_url)
            = Inr cache_key"
    by blast
  with miss have "fst (get_cached_response cache_key w) = None"
    by simp
  from fresh_call_caches [OF first key this fresh] young show ?thesis
    by (intro cache_hit [OF key, where ts = "clock w1"]) simp_all
qed

lemma hello_is_not_guidance:
  "\<lparr>model = JStr (u ''m1''), task_type = u ''general'', assistant_text = u ''Hello'',
     raw = hello_json\<rparr> \<noteq> rate_limited_response ms task"
  by (simp add: rate_limited_response_def guidance_def u_def)

lemma env_ok_lower: "lower env_ok = ascii_lower"
  by (simp add: env_ok_def)

lemma clock_after_ok_run: "clock (snd (generate_response env_ok (u ''hi'') None 0.7 world0)) = 1"
  unfolding ok_run by simp

lemma fst_ok_run:
  "generate_response env_ok (u ''hi'') None 0.7 world0 =
    (Inr \<lparr>model = JStr (u ''m1''), task_type = u ''general'', assistant_text = u ''Hello'',
           raw = hello_json\<rparr>, snd (generate_response env_ok (u ''hi'') None 0.7 world0))"
  unfolding ok_run by simp

lemma second_ok_run:
  "generate_response env_ok (u ''hi'') None 0.7
     ((snd (generate_response env_ok (u ''hi'') None 0.7 world0))\<lparr>clock := 100\<rparr>)
   = (Inr \<lparr>model = JStr (u ''m1''), task_type = u ''general'', assistant_text = u ''Hello'',
           raw = hello_json\<rparr>,
      (snd (generate_response env_ok (u ''hi'') None 0.7 world0))\<lparr>clock := 100\<rparr>)"
  by (rule repeated_call_hits [OF fst_ok_run])
     (simp_all add: world0_miss hello_is_not_guidance clock_after_ok_run CACHE_TTL_def)

text \<open>
  C9.  The cache key is computed from the prompt, the image reference and the task
  category; the temperature is not among the arguments of \<open>generate_cache_key\<close>.  So
  when a call at temperature \<open>t1\<close> found no fresh entry under the key of the request and
  produced and cached a response, a call with the same prompt and image reference at any
  temperature \<open>t2\<close>, made while the entry is younger than the TTL, returns that response
  and leaves the state as it is.
\<close>

theorem cached_response_ignores_temperature:
  assumes "generate_response e prompt image_url t1 w = (Inr r, w1)"
    and "\<forall>cache_key. generate_cache_key e prompt image_url
                   (classify_task (lower e) prompt image_url) = Inr cache_key
                 \<longrightarrow> fst (get_cached_response cache_key w) = None"
    and "r \<noteq> rate_limited_response
               (models_for e (classify_task (lower e) prompt image_url))
               (classify_task (lower e) prompt image_url)"
    and "now - clock w1 < CACHE_TTL"
  shows "generate_response e prompt image_url t2 (w1\<lparr>clock := now\<rparr>)
           = (Inr r, w1\<lparr>clock := now\<rparr>)"
  using assms by (rule repeated_call_hits)

theorem cached_response_ignores_temperature_witness:
  "generate_response env_ok (u ''hi'') None 0.2
     ((snd (generate_response env_ok (u ''hi'') None 0.7 world0))\<lparr>clock := 100\<rparr>)
   = (Inr \<lparr>model = JStr (u ''m1''), task_type = u ''general'', assistant_text = u ''Hello'',
           raw = hello_json\<rparr>,
      (snd (generate_response env_ok (u ''hi'') None 0.7 world0))\<lparr>clock := 100\<rparr>)"
  using cached_response_ignores_temperature [where e = env_ok and prompt = "u ''hi''"
      and image_url = None and ?t1.0 = "0.7" and ?t2.0 = "0.2" and w = world0 and now = 100,
      OF fst_ok_run]
  by (simp add: world0_miss hello_is_not_guidance clock_after_ok_run CACHE_TTL_def)

text \<open>
  C5, as amended.  When a call found no fresh entry under the key of the request and
  produced and cached a response, an identical call within the TTL returns the same
  response, issues no request and touches no counter: every upstream call of the two is
  made by the first.  The two results are equal in every field; no flag tells the cached
  one from the fresh one.
\<close>

theorem second_call_served_from_cache:
  assumes "generate_response e prompt image_url temperature w = (Inr r, w1)"
    and "\<forall>cache_key. generate_cache_key e prompt image_url
                   (classify_task (lower e) prompt image_url) = Inr cache_key
                 \<longrightarrow> fst (get_cached_response cache_key w) = None"
    and "r \<noteq> rate_limited_response
               (models_for e (classify_task (lower e) prompt image_url))
               (classify_task (lower e) prompt image_url)"
    and "now - clock w1 < CACHE_TTL"
  shows "fst (generate_response e prompt image_url temperature (w1\<lparr>clock := now\<rparr>)) = Inr r
       \<and> http_log (snd (generate_response e prompt image_url temperature (w1\<lparr>clock := now\<rparr>)))
           = http_log w1
       \<and> metrics (snd (generate_response e prompt image_url temperature (w1\<lparr>clock := now\<rparr>)))
           = metrics w1"
proof -
  have "generate_response e prompt image_url temperature (w1\<lparr>clock := now\<rparr>)
           = (Inr r, w1\<lparr>clock := now\<rparr>)"
    using assms by (rule repeated_call_hits)
  then show ?thesis
    by simp
qed

theorem second_call_served_from_cache_witness:
  "fst (generate_response env_ok (u ''hi'') None 0.7
     ((snd (generate_response env_ok (u ''hi'') None 0.7 world0))\<lparr>clock := 100\<rparr>))
   = Inr \<lparr>model = JStr (u ''m1''), task_type = u ''general'', assistant_text = u ''Hello'',
           raw = hello_json\<rparr>
   \<and> http_log (snd (generate_response env_ok (u ''hi'') None 0.7
     ((snd (generate_response env_ok (u ''hi'') None 0.7 world0))\<lparr>clock := 100\<rparr>)))
   = http_log (snd (generate_response env_ok (u ''hi'') None 0.7 world0))
   \<and> metrics (snd (generate_response env_ok (u ''hi'') None 0.7
     ((snd (generate_response env_ok (u ''hi'') None 0.7 world0))\<lparr>clock := 100\<rparr>)))
   = metrics (snd (generate_response env_ok (u ''hi'') None 0.7 world0))"
  using second_call_served_from_cache [where e = env_ok and prompt = "u ''hi''"
      and image_url = None and temperature = "0.7" and w = world0 and now = 100,
      OF fst_ok_run]
  by (simp add: world0_miss hello_is_not_guidance clock_after_ok_run CACHE_TTL_def)

text \<open>
  C5 as stated fails: the result of the second call is the result of the first, so
  nothing in it marks it as cached.
\<close>

theorem second_result_carries_no_cached_flag:
  "fst (generate_response env_ok (u ''hi'') None 0.7
     ((snd (generate_response env_ok (u ''hi'') None 0.7 world0))\<lparr>clock := 100\<rparr>))
   = fst (generate_response env_ok (u ''hi'') None 0.7 world0)"
  unfolding second_ok_run unfolding ok_run by simp

section \<open>Fallback order\<close>

lemma rotation_429_run:
  "request_with_rotation env_429
     (\<lparr>p_model = u ''a'', p_messages = [Message (u ''user'') (TextContent (u ''hi''))],
      p_temperature = 0.7\<rparr>\<lparr>p_model := u ''a''\<rparr>) [u ''k1''] 1 5 world0 =
     (Inl (RateLimitExhaustedError
        (u ''Rate limited across all keys. Attempts: key 1 attempt 1 -> 429 : slow down'')),
      world0\<lparr>metrics := \<lparr>attempts = 1, successful_calls = 0, errors_total = 1,
                           bytes_received = 0, last_latency_ms = 1000\<rparr>,
             clock := 6,
             http_log := [OpenRouterPost (u ''k1'') None None
                \<lparr>p_model = u ''a'', p_messages = [Message (u ''user'') (TextContent (u ''hi''))],
                 p_temperature = 0.7\<rparr>]\<rparr>)"
  by (simp add: router_defs fixture_defs eval_simps u_def nl_def)

lemma rotation_503_run:
  "request_with_rotation env_503
     (\<lparr>p_model = u ''a'', p_messages = [Message (u ''user'') (TextContent (u ''hi''))],
      p_temperature = 0.7\<rparr>\<lparr>p_model := u ''a''\<rparr>) [u ''k1''] 1 5 world0 =
     (Inl (RuntimeError
        (u ''All keys failed. Last error: HTTP 503 with key 1. Attempts: key 1 attempt 1 -> 503 : loading'')),
      world0\<lparr>metrics := \<lparr>attempts = 1, successful_calls = 0, errors_total = 1,
                           bytes_received = 0, last_latency_ms = 1000\<rparr>,
             clock := 1,
             http_log := [OpenRouterPost (u ''k1'') None None
                \<lparr>p_model = u ''a'', p_messages = [Message (u ''user'') (TextContent (u ''hi''))],
                 p_temperature = 0.7\<rparr>]\<rparr>)"
  by (simp add: router_defs fixture_defs eval_simps u_def nl_def)

lemma error_429_mentions_429:
  "str_in (u ''429'')
     (u ''Rate limited across all keys. Attempts: key 1 attempt 1 -> 429 : slow down'')"
  by (simp add: str_in_def sublist_code u_def)

lemma error_503_without_429:
  "\<not> str_in (u ''429'')
     (u ''All keys failed. Last error: HTTP 503 with key 1. Attempts: key 1 attempt 1 -> 503 : loading'')"
  by (simp add: str_in_def sublist_code u_def)

lemma env_429_headers:
  "header_of env_429 (u ''INTELLIHUB_REFERER'') = None"
  "header_of env_429 (u ''INTELLIHUB_TITLE'') = None"
  by (simp_all add: header_of_def getenv_def env_429_def u_def)


text \<open>
  C2.  Let the attempt of model A (one try per key, as the coordinator makes it) fail
  with the error \<open>err\<close>, leaving the state \<open>w1\<close>.  When the text of \<open>err\<close> contains 429, the
  coordinator on the list [A, B] goes on to model B: the next request after those of A
  carries model B, and an answer of B is what the coordinator returns.  When the text
  of \<open>err\<close> does not contain 429, the coordinator raises \<open>err\<close> in the state \<open>w1\<close>: no
  request for B is made.
\<close>

theorem fallback_order:
  assumes first: "request_with_rotation e (pl\<lparr>p_model := model_a\<rparr>) api_keys 1 5 w
                    = (Inl err, w1)"
  shows "(str_in (u ''429'') (error_text err) \<longrightarrow>
            (\<exists>result w2 more.
               try_models_with_fallback e [model_a, model_b] pl api_keys w = (result, w2)
               \<and> http_log w2 = http_log w1 @
                    OpenRouterPost (hd api_keys) (header_of e (u ''INTELLIHUB_REFERER''))
                      (header_of e (u ''INTELLIHUB_TITLE'')) (pl\<lparr>p_model := model_b\<rparr>) # more
               \<and> (\<forall>data. fst (request_with_rotation e (pl\<lparr>p_model := model_b\<rparr>) api_keys 1 5 w1)
                            = Inr data \<longrightarrow> result = Inr data)))
       \<and> (\<not> str_in (u ''429'') (error_text err) \<longrightarrow>
            try_models_with_fallback e [model_a, model_b] pl api_keys w = (Inl err, w1))"
proof (intro conjI impI)
  assume "\<not> str_in (u ''429'') (error_text err)"
  with first show "try_models_with_fallback e [model_a, model_b] pl api_keys w = (Inl err, w1)"
    by (simp add: try_models_with_fallback_def)
next
  assume limited: "str_in (u ''429'') (error_text err)"
  have kind: "is_RuntimeError err"
    using first by (rule request_with_rotation_error_kind)
  have keys: "api_keys \<noteq> []"
  proof
    assume "api_keys = []"
    with first have "err = RuntimeError
        (u ''No API keys found. Set OPENROUTER_API_KEYS or OPENROUTER_API_KEY_1.'')"
      by (simp add: request_with_rotation_def)
    with limited no_keys_message_without_429 show False
      by simp
  qed
  obtain r2 w2 where second:
    "request_with_rotation e (pl\<lparr>p_model := model_b\<rparr>) api_keys 1 5 w1 = (r2, w2)"
    by (cases "request_with_rotation e (pl\<lparr>p_model := model_b\<rparr>) api_keys 1 5 w1")
  from request_with_rotation_first_request [OF keys second]
  obtain more where requests: "http_log w2 = http_log w1 @
      OpenRouterPost (hd api_keys) (header_of e (u ''INTELLIHUB_REFERER''))
        (header_of e (u ''INTELLIHUB_TITLE'')) (pl\<lparr>p_model := model_b\<rparr>) # more"
    by blast
  have "\<exists>result. try_models_with_fallback e [model_a, model_b] pl api_keys w = (result, w2)
          \<and> (\<forall>data. r2 = Inr data \<longrightarrow> result = Inr data)"
  proof (cases r2)
    case (Inr data)
    with first second kind limited show ?thesis
      by (simp add: try_models_with_fallback_def)
  next
    case (Inl err2)
    with first second kind limited show ?thesis
      by (simp add: try_models_with_fallback_def)
  qed
  then obtain result where res:
    "try_models_with_fallback e [model_a, model_b] pl api_keys w = (result, w2)"
    "\<forall>data. r2 = Inr data \<longrightarrow> result = Inr data"
    by blast
  have "\<forall>data. fst (request_with_rotation e (pl\<lparr>p_model := model_b\<rparr>) api_keys 1 5 w1)
                            = Inr data \<longrightarrow> result = Inr data"
    using res(2) second by simp
  with res(1) requests
  show "\<exists>result w2 more.
               try_models_with_fallback e [model_a, model_b] pl api_keys w = (result, w2)
               \<and> http_log w2 = http_log w1 @
                    OpenRouterPost (hd api_keys) (header_of e (u ''INTELLIHUB_REFERER''))
                      (header_of e (u ''INTELLIHUB_TITLE'')) (pl\<lparr>p_model := model_b\<rparr>) # more
               \<and> (\<forall>data. fst (request_with_rotation e (pl\<lparr>p_model := model_b\<rparr>) api_keys 1 5 w1)
                            = Inr data \<longrightarrow> result = Inr data)"
    by blast
qed


theorem fallback_order_witness:
  "(\<exists>result w2 more.
      try_models_with_fallback env_429 [u ''a'', u ''b'']
        \<lparr>p_model = u ''a'', p_messages = [Message (u ''user'') (TextContent (u ''hi''))],
         p_temperature = 0.7\<rparr> [u ''k1''] world0 = (result, w2)
      \<and> http_log w2 =
          OpenRouterPost (u ''k1'') None None
             \<lparr>p_model = u ''a'', p_messages = [Message (u ''user'') (TextContent (u ''hi''))],
              p_temperature = 0.7\<rparr>
          # OpenRouterPost (u ''k1'') None None
             \<lparr>p_model = u ''b'', p_messages = [Message (u ''user'') (TextContent (u ''hi''))],
              p_temperature = 0.7\<rparr>
          # more)
   \<and> try_models_with_fallback env_503 [u ''a'', u ''b'']
        \<lparr>p_model = u ''a'', p_messages = [Message (u ''user'') (TextContent (u ''hi''))],
         p_temperature = 0.7\<rparr> [u ''k1''] world0 =
       (Inl (RuntimeError
          (u ''All keys failed. Last error: HTTP 503 with key 1. Attempts: key 1 attempt 1 -> 503 : loading'')),
        world0\<lparr>metrics := \<lparr>attempts = 1, successful_calls = 0, errors_total = 1,
                             bytes_received = 0, last_latency_ms = 1000\<rparr>,
               clock := 1,
               http_log := [OpenRouterPost (u ''k1'') None None
                  \<lparr>p_model = u ''a'', p_messages = [Message (u ''user'') (TextContent (u ''hi''))],
                   p_temperature = 0.7\<rparr>]\<rparr>)"
proof (rule conjI)
  have limited: "str_in (u ''429'') (error_text (RateLimitExhaustedError
      (u ''Rate limited across all keys. Attempts: key 1 attempt 1 -> 429 : slow down'')))"
    using error_429_mentions_429 by simp
  from fallback_order [OF rotation_429_run, where model_b = "u ''b''", THEN conjunct1,
      rule_format, OF limited]
  obtain result w2 more where
    "try_models_with_fallback env_429 [u ''a'', u ''b'']
        \<lparr>p_model = u ''a'', p_messages = [Message (u ''user'') (TextContent (u ''hi''))],
         p_temperature = 0.7\<rparr> [u ''k1''] world0 = (result, w2)"
    "http_log w2 = http_log (world0\<lparr>metrics := \<lparr>attempts = 1, successful_calls = 0,
                           errors_total = 1, bytes_received = 0, last_latency_ms = 1000\<rparr>,
             clock := 6,
             http_log := [OpenRouterPost (u ''k1'') None None
                \<lparr>p_model = u ''a'', p_messages = [Message (u ''user'') (TextContent (u ''hi''))],
                 p_temperature = 0.7\<rparr>]\<rparr>) @
       OpenRouterPost (hd [u ''k1'']) (header_of env_429 (u ''INTELLIHUB_REFERER''))
         (header_of env_429 (u ''INTELLIHUB_TITLE''))
         (\<lparr>p_model = u ''a'', p_messages = [Message (u ''user'') (TextContent (u ''hi''))],
          p_temperature = 0.7\<rparr>\<lparr>p_model := u ''b''\<rparr>) # more"
    by blast
  then show "\<exists>result w2 more.
      try_models_with_fallback env_429 [u ''a'', u ''b'']
        \<lparr>p_model = u ''a'', p_messages = [Message (u ''user'') (TextContent (u ''hi''))],
         p_temperature = 0.7\<rparr> [u ''k1''] world0 = (result, w2)
      \<and> http_log w2 =
          OpenRouterPost (u ''k1'') None None
             \<lparr>p_model = u ''a'', p_messages = [Message (u ''user'') (TextContent (u ''hi''))],
              p_temperature = 0.7\<rparr>
          # OpenRouterPost (u ''k1'') None None
             \<lparr>p_model = u ''b'', p_messages = [Message (u ''user'') (TextContent (u ''hi''))],
              p_temperature = 0.7\<rparr>
          # more"
    by (simp add: env_429_headers)
next
  have other: "\<not> str_in (u ''429'') (error_text (RuntimeError
      (u ''All keys failed. Last error: HTTP 503 with key 1. Attempts: key 1 attempt 1 -> 503 : loading'')))"
    using error_503_without_429 by simp
  from fallback_order [OF rotation_503_run, where model_b = "u ''b''", THEN conjunct2,
      rule_format, OF other]
  show "try_models_with_fallback env_503 [u ''a'', u ''b'']
        \<lparr>p_model = u ''a'', p_messages = [Message (u ''user'') (TextContent (u ''hi''))],
         p_temperature = 0.7\<rparr> [u ''k1''] world0 =
       (Inl (RuntimeError
          (u ''All keys failed. Last error: HTTP 503 with key 1. Attempts: key 1 attempt 1 -> 503 : loading'')),
        world0\<lparr>metrics := \<lparr>attempts = 1, successful_calls = 0, errors_total = 1,
                             bytes_received = 0, last_latency_ms = 1000\<rparr>,
               clock := 1,
               http_log := [OpenRouterPost (u ''k1'') None None
                  \<lparr>p_model = u ''a'', p_messages = [Message (u ''user'') (TextContent (u ''hi''))],
                   p_temperature = 0.7\<rparr>]\<rparr>)" .
qed

end
